theory Spec2Isabelle
  imports Main "HOL-Library.AList"
begin

section \<open>JavaScript values, failures and remote calls\<close>

text \<open>
  The Passly SDK exists in two variants: the multi-source SDK (\<open>src/index.js\<close>, five
  contracts) and the earlier single-source SDK (one contract). Both are classes whose
  methods await calls to remote contracts. The model keeps the source's control flow:
  a method returns the list of remote calls it issued together with either the error it
  threw or its value.

  Numbers are modelled as \<open>int\<close> (the safe-integer range of a JavaScript number;
  fractions, infinities and NaN are outside the model); a \<open>Date\<close> is its number of
  milliseconds since the epoch (within the range a \<open>Date\<close> can hold); \<open>uint256\<close>
  results of a contract are \<open>nat\<close> (an ethers BigNumber).
\<close>

datatype error = Error string | TypeError string

fun message :: "error \<Rightarrow> string" where
  "message (Error m) = m"
| "message (TypeError m) = m"

text \<open>A handle as callers pass it: a JavaScript number or a string.\<close>

datatype handle = Num int | Str string

datatype call =
    GetPassportByAddress handle
  | GetPassportData int
  | GetVerifiedPlatforms int
  | GetVerification int string
  | RewardsGetPoints int
  | RewardsGetPointBreakdown int

type_synonym 'a io = "call list \<times> (error + 'a)"

definition ret :: "'a \<Rightarrow> 'a io" where
  "ret x = ([], Inr x)"

definition throw :: "error \<Rightarrow> 'a io" where
  "throw e = ([], Inl e)"

text \<open>\<open>await\<close> of a contract method: the call is recorded, its outcome is the contract's.\<close>

definition await :: "call \<Rightarrow> error + 'a \<Rightarrow> 'a io" where
  "await c r = ([c], r)"

text \<open>Sequencing: a thrown error skips the rest; the calls made so far stay made.\<close>

definition bnd :: "'a io \<Rightarrow> ('a \<Rightarrow> 'b io) \<Rightarrow> 'b io" where
  "bnd m f =
     (case m of
        (l, Inl e) \<Rightarrow> (l, Inl e)
      | (l, Inr x) \<Rightarrow> (case f x of (l', r) \<Rightarrow> (l @ l', r)))"

text \<open>\<open>try { m } catch (error) { h error }\<close>.\<close>

definition try_catch :: "'a io \<Rightarrow> (error \<Rightarrow> 'a io) \<Rightarrow> 'a io" where
  "try_catch m h =
     (case m of
        (l, Inl e) \<Rightarrow> (case h e of (l', r) \<Rightarrow> (l @ l', r))
      | (l, Inr x) \<Rightarrow> (l, Inr x))"

text \<open>
  \<open>BigNumber.toNumber()\<close> of ethers v5 throws a numeric fault when the value does not
  fit in 53 bits.
\<close>

definition toNumber :: "nat \<Rightarrow> int io" where
  "toNumber n = (if n \<le> 9007199254740991 then ret (int n) else throw (Error ''overflow''))"

text \<open>\<open>String.prototype.includes\<close>: does \<open>s\<close> contain \<open>search\<close> as a substring?\<close>

fun includes_str :: "string \<Rightarrow> string \<Rightarrow> bool" where
  "includes_str [] search = (search = [])"
| "includes_str (c # cs) search = (take (length search) (c # cs) = search \<or> includes_str cs search)"

text \<open>
  \<open>String.prototype.toLowerCase\<close> on the ASCII letters; characters outside
  \<open>A\<close>..\<open>Z\<close> are left as they are.
\<close>

definition lowerChar :: "char \<Rightarrow> char" where
  "lowerChar c =
     (if 65 \<le> (of_char c :: nat) \<and> (of_char c :: nat) \<le> 90
      then char_of ((of_char c :: nat) + 32) else c)"

definition toLowerCase :: "string \<Rightarrow> string" where
  "toLowerCase s = map lowerChar s"

section \<open>Data model\<close>

text \<open>
  A verification as stored in a passport object (the source's \<open>identifier\<close> is
  \<open>identifier_v\<close>). The single-source contract returns no
  \<open>pointsAwarded\<close>; the property is then absent (\<open>None\<close>).
\<close>

record verification =
  identifier_v :: string
  verifiedAt :: int
  proofHash :: string
  active :: bool
  pointsAwarded :: "bool option"

text \<open>
  A JavaScript object used as a dictionary is an association list in insertion order:
  \<open>obj[k] = v\<close> is \<open>AList.update k v obj\<close> and \<open>obj[k]\<close> is \<open>map_of obj k\<close>
  (\<open>None\<close> for \<open>undefined\<close>). Platform names are assumed not to be property names of
  \<open>Object.prototype\<close>.

  The entries returned by \<open>getUsersByCategory\<close> have the fields of \<open>passportInfo\<close>
  (the source's \<open>id\<close> is \<open>passport_id\<close>); a passport of the single-source SDK adds
  \<open>verifications\<close>, one of the multi-source SDK adds the three rewards fields.
\<close>

record passportInfo =
  passport_id :: int
  owner :: string
  createdAt :: int
  verificationCount :: int
  category :: string
  platforms :: "string list"

record passport = passportInfo +
  verifications :: "(string \<times> verification) list"

record passportR = passport +
  totalPoints :: int
  referralCode :: string
  totalReferrals :: int

text \<open>
  The identity registry contract. \<open>getPassportData\<close> and \<open>getVerification\<close> return
  tuples, of 4 and 4 components in the single-source ABI and of 7 and 5 in the
  multi-source ABI. A call that reverts or cannot be decoded is \<open>Inl\<close>.
\<close>

record ('pd, 'vd) registry =
  getPassportByAddress :: "handle \<Rightarrow> error + nat"
  getPassportData :: "int \<Rightarrow> error + 'pd"
  getVerifiedPlatforms :: "int \<Rightarrow> error + string list"
  getVerification :: "int \<Rightarrow> string \<Rightarrow> error + 'vd"

type_synonym registryR =
  "(string \<times> nat \<times> nat \<times> string \<times> nat \<times> string \<times> nat,
    string \<times> nat \<times> string \<times> bool \<times> bool) registry"

type_synonym registryS =
  "(string \<times> nat \<times> nat \<times> string, string \<times> nat \<times> string \<times> bool) registry"

record rewards_contract =
  rewards_getPoints :: "int \<Rightarrow> error + nat"
  rewards_getPointBreakdown :: "int \<Rightarrow> error + nat \<times> nat \<times> nat \<times> nat"

text \<open>The platforms, archives and leaderboard contracts are kept by address only.\<close>

datatype contract = Contract string

text \<open>
  What \<open>new ethers.Contract(address, abi, provider)\<close> gives for each ABI: the provider
  (or signer) decides what is deployed at an address; the constructor may throw.
\<close>

record provider =
  passlyAt :: "string \<Rightarrow> error + registryR"
  rewardsAt :: "string \<Rightarrow> error + rewards_contract"
  contractAt :: "string \<Rightarrow> error + contract"

record addresses =
  addr_passly :: string
  addr_platforms :: string
  addr_archives :: string
  addr_rewards :: string
  addr_leaderboard :: string

text \<open>A configuration object; an absent property is \<open>None\<close>.\<close>

record config =
  contractAddress :: "string option"
  platformsAddress :: "string option"
  archivesAddress :: "string option"
  rewardsAddress :: "string option"
  leaderboardAddress :: "string option"
  cfg_provider :: "provider option"
  cfg_signer :: "provider option"
  cfg_addresses :: "addresses option"

record contracts =
  passly :: "registryR option"
  platforms_contract :: "contract option"
  archives :: "contract option"
  rewards :: "rewards_contract option"
  leaderboard :: "contract option"

text \<open>The state of a \<open>PasslySDK\<close> object of the multi-source SDK.\<close>

record sdk =
  sdk_config :: config
  sdk_contracts :: contracts
  isConnected :: bool

text \<open>The state of a \<open>PasslySDK\<close> object of the single-source SDK.\<close>

record sdk_single =
  contract_single :: "registryS option"
  isConnected_single :: bool

section \<open>The multi-source SDK\<close>

subsection \<open>Construction and connection\<close>

definition emptyConfig :: config where
  "emptyConfig =
     \<lparr>contractAddress = None, platformsAddress = None, archivesAddress = None,
      rewardsAddress = None, leaderboardAddress = None, cfg_provider = None,
      cfg_signer = None, cfg_addresses = None\<rparr>"

definition constructor :: "config \<Rightarrow> sdk" where
  "constructor cfg =
     \<lparr>sdk_config = cfg,
      sdk_contracts = \<lparr>passly = None, platforms_contract = None, archives = None,
                       rewards = None, leaderboard = None\<rparr>,
      isConnected = False\<rparr>"

text \<open>\<open>a || b\<close> on an optional string: \<open>undefined\<close> and the empty string are falsy.\<close>

definition orDefault :: "string option \<Rightarrow> string \<Rightarrow> string" where
  "orDefault a b = (case a of None \<Rightarrow> b | Some s \<Rightarrow> if s = [] then b else s)"

definition orElse :: "'a option \<Rightarrow> 'a option \<Rightarrow> 'a option" where
  "orElse a b = (case a of None \<Rightarrow> b | Some x \<Rightarrow> Some x)"

text \<open>\<open>{ ...this.config, ...options }\<close>: a property present in \<open>options\<close> wins.\<close>

definition mergeConfig :: "config \<Rightarrow> config \<Rightarrow> config" where
  "mergeConfig c options =
     \<lparr>contractAddress = orElse (contractAddress options) (contractAddress c),
      platformsAddress = orElse (platformsAddress options) (platformsAddress c),
      archivesAddress = orElse (archivesAddress options) (archivesAddress c),
      rewardsAddress = orElse (rewardsAddress options) (rewardsAddress c),
      leaderboardAddress = orElse (leaderboardAddress options) (leaderboardAddress c),
      cfg_provider = orElse (cfg_provider options) (cfg_provider c),
      cfg_signer = orElse (cfg_signer options) (cfg_signer c),
      cfg_addresses = orElse (cfg_addresses options) (cfg_addresses c)\<rparr>"

text \<open>An exception of a synchronous constructor, in the types of this model.\<close>

definition lift :: "error + 'a \<Rightarrow> 'a io" where
  "lift r = ([], r)"

text \<open>
  \<open>connect(options)\<close>. \<open>jsonRpcProvider\<close> is the provider that
  \<open>new ethers.providers.JsonRpcProvider(url)\<close> builds for the SKALE testnet URL. The
  contracts already bound stay bound where an \<open>if (addresses.x)\<close> is false. When a
  constructor throws, \<open>connect\<close> throws; the model then gives the error only, not
  the contracts that were assigned before it.
\<close>

definition connect :: "provider \<Rightarrow> sdk \<Rightarrow> config \<Rightarrow> sdk io" where
  "connect jsonRpcProvider this options =
     (let config0 = mergeConfig (sdk_config this) options;
          config1 = (case cfg_provider config0 of
                       None \<Rightarrow> config0\<lparr>cfg_provider := Some jsonRpcProvider\<rparr>
                     | Some p \<Rightarrow> config0);
          addrs = \<lparr>addr_passly = orDefault (contractAddress config1)
                                   ''0x8EEFC0840Bc24e269A2F77B787E9b3e212c4F316'',
                   addr_platforms = orDefault (platformsAddress config1)
                                   ''0xd2FEEa5775c171D85648198AeB77377fD9AdFe98'',
                   addr_archives = orDefault (archivesAddress config1)
                                   ''0xbC57EA3ff9BDE13087b907Dc02e86f08C57574E7'',
                   addr_rewards = orDefault (rewardsAddress config1)
                                   ''0xEc34ad267a9AACE045Ef4644047BCFeB0f53b0C0'',
                   addr_leaderboard = orDefault (leaderboardAddress config1)
                                   ''0x7f9c4841346d0ef7970daF02aE3663f8AC5bE540''\<rparr>;
          contractProvider = (case cfg_signer config1 of
                                Some sg \<Rightarrow> sg
                              | None \<Rightarrow> (case cfg_provider config1 of
                                           Some p \<Rightarrow> p | None \<Rightarrow> jsonRpcProvider));
          c0 = sdk_contracts this
      in bnd (lift (passlyAt contractProvider (addr_passly addrs))) (\<lambda>p.
         let c1 = c0\<lparr>passly := Some p\<rparr>
         in bnd (if addr_platforms addrs \<noteq> []
                 then bnd (lift (contractAt contractProvider (addr_platforms addrs)))
                          (\<lambda>x. ret (c1\<lparr>platforms_contract := Some x\<rparr>))
                 else ret c1) (\<lambda>c2.
            bnd (if addr_archives addrs \<noteq> []
                 then bnd (lift (contractAt contractProvider (addr_archives addrs)))
                          (\<lambda>x. ret (c2\<lparr>archives := Some x\<rparr>))
                 else ret c2) (\<lambda>c3.
            bnd (if addr_rewards addrs \<noteq> []
                 then bnd (lift (rewardsAt contractProvider (addr_rewards addrs)))
                          (\<lambda>x. ret (c3\<lparr>rewards := Some x\<rparr>))
                 else ret c3) (\<lambda>c4.
            bnd (if addr_leaderboard addrs \<noteq> []
                 then bnd (lift (contractAt contractProvider (addr_leaderboard addrs)))
                          (\<lambda>x. ret (c4\<lparr>leaderboard := Some x\<rparr>))
                 else ret c4) (\<lambda>c5.
            ret \<lparr>sdk_config = config1\<lparr>cfg_addresses := Some addrs\<rparr>,
                 sdk_contracts = c5, isConnected = True\<rparr>))))))"

definition ensureConnected :: "sdk \<Rightarrow> unit io" where
  "ensureConnected this =
     (if \<not> isConnected this
      then throw (Error ''Passly SDK not connected. Call connect() first.'')
      else ret ())"

text \<open>\<open>this.contracts.passly\<close>, on which a method is then called.\<close>

definition passlyContract :: "sdk \<Rightarrow> registryR io" where
  "passlyContract this =
     (case passly (sdk_contracts this) of
        None \<Rightarrow> throw (TypeError ''Cannot read properties of undefined'')
      | Some reg \<Rightarrow> ret reg)"

subsection \<open>Passport and identity functions\<close>

text \<open>\<open>getPassportId\<close> returns a number or \<open>null\<close> (\<open>None\<close>).\<close>

definition getPassportId :: "sdk \<Rightarrow> handle \<Rightarrow> int option io" where
  "getPassportId this address =
     bnd (ensureConnected this) (\<lambda>_.
     try_catch
       (bnd (passlyContract this) (\<lambda>reg.
        bnd (await (GetPassportByAddress address) (getPassportByAddress reg address)) (\<lambda>passportId.
        bnd (toNumber passportId) (\<lambda>n. ret (Some n)))))
       (\<lambda>error.
          if includes_str (message error) ''User has no passport'' then ret None
          else throw error))"

definition hasPassport :: "sdk \<Rightarrow> handle \<Rightarrow> bool io" where
  "hasPassport this address =
     bnd (getPassportId this address) (\<lambda>passportId. ret (passportId \<noteq> None))"

text \<open>
  The loop of \<open>getPassport\<close> and \<open>getVerifications\<close> over the platform list: a platform
  whose verification fails to load is skipped (the source logs a warning).
\<close>

fun gatherVerifications ::
  "registryR \<Rightarrow> int \<Rightarrow> string list \<Rightarrow> (string \<times> verification) list
     \<Rightarrow> (string \<times> verification) list io" where
  "gatherVerifications reg passportId [] verifs = ret verifs"
| "gatherVerifications reg passportId (platform # rest) verifs =
     bnd (try_catch
            (bnd (await (GetVerification passportId platform)
                        (getVerification reg passportId platform))
               (\<lambda>(ident, verifiedAt', proofHash', active', pointsAwarded').
            bnd (toNumber verifiedAt') (\<lambda>t.
            ret (AList.update platform
                   \<lparr>identifier_v = ident, verifiedAt = t * 1000, proofHash = proofHash',
                    active = active', pointsAwarded = Some pointsAwarded'\<rparr> verifs))))
            (\<lambda>error. ret verifs))
         (\<lambda>verifs'. gatherVerifications reg passportId rest verifs')"

text \<open>\<open>!passportId\<close> holds for \<open>null\<close> and for the number 0.\<close>

definition falsyId :: "int option \<Rightarrow> bool" where
  "falsyId passportId = (case passportId of None \<Rightarrow> True | Some n \<Rightarrow> n = 0)"

definition getPassport :: "sdk \<Rightarrow> handle \<Rightarrow> passportR option io" where
  "getPassport this address =
     bnd (ensureConnected this) (\<lambda>_.
     bnd (try_catch (getPassportId this address) (\<lambda>error. ret None)) (\<lambda>passportId.
     if falsyId passportId then ret None
     else
       bnd (passlyContract this) (\<lambda>reg.
       bnd (await (GetPassportData (the passportId)) (getPassportData reg (the passportId)))
         (\<lambda>(owner', createdAt', verificationCount', category', totalPoints', referralCode',
             totalReferrals').
       bnd (await (GetVerifiedPlatforms (the passportId))
                  (getVerifiedPlatforms reg (the passportId))) (\<lambda>platforms'.
       bnd (gatherVerifications reg (the passportId) platforms' []) (\<lambda>verifs.
       bnd (toNumber createdAt') (\<lambda>createdAtN.
       bnd (toNumber verificationCount') (\<lambda>verificationCountN.
       bnd (toNumber totalPoints') (\<lambda>totalPointsN.
       bnd (toNumber totalReferrals') (\<lambda>totalReferralsN.
       ret (Some \<lparr>passport_id = the passportId, owner = owner',
                  createdAt = createdAtN * 1000, verificationCount = verificationCountN,
                  category = category', platforms = platforms', verifications = verifs,
                  totalPoints = totalPointsN, referralCode = referralCode',
                  totalReferrals = totalReferralsN\<rparr>)))))))))))"

text \<open>
  \<open>_resolvePassportId\<close>. \<open>isAddress\<close> is \<open>ethers.utils.isAddress\<close>; \<open>parseInt\<close> of
  a number of this model is the number, of a string of digits its decimal value.
\<close>

definition isDigits :: "string \<Rightarrow> bool" where
  "isDigits s = (s \<noteq> [] \<and> list_all (\<lambda>c. 48 \<le> (of_char c :: nat) \<and> (of_char c :: nat) \<le> 57) s)"

definition parseInt :: "string \<Rightarrow> int" where
  "parseInt s = foldl (\<lambda>acc c. 10 * acc + (int (of_char c) - 48)) 0 s"

definition resolvePassportId :: "(string \<Rightarrow> bool) \<Rightarrow> sdk \<Rightarrow> handle \<Rightarrow> int io" where
  "resolvePassportId isAddress this addressOrPassportId =
     (case addressOrPassportId of
        Num n \<Rightarrow> ret n
      | Str a \<Rightarrow>
          if isDigits a then ret (parseInt a)
          else if isAddress a then
            bnd (getPassportId this (Str a)) (\<lambda>passportId.
            if falsyId passportId then throw (Error ''No passport found for address'')
            else ret (the passportId))
          else throw (Error ''Invalid address or passport ID''))"

definition getVerifications ::
  "(string \<Rightarrow> bool) \<Rightarrow> sdk \<Rightarrow> handle \<Rightarrow> (string \<times> verification) list io" where
  "getVerifications isAddress this addressOrPassportId =
     bnd (ensureConnected this) (\<lambda>_.
     bnd (resolvePassportId isAddress this addressOrPassportId) (\<lambda>passportId.
     bnd (passlyContract this) (\<lambda>reg.
     bnd (await (GetVerifiedPlatforms passportId) (getVerifiedPlatforms reg passportId))
       (\<lambda>platforms'.
     gatherVerifications reg passportId platforms' []))))"

subsection \<open>Rewards and points functions\<close>

definition getPoints :: "(string \<Rightarrow> bool) \<Rightarrow> sdk \<Rightarrow> handle \<Rightarrow> int option io" where
  "getPoints isAddress this addressOrPassportId =
     bnd (ensureConnected this) (\<lambda>_.
     case rewards (sdk_contracts this) of
       None \<Rightarrow>
         bnd (getPassport this addressOrPassportId) (\<lambda>p.
         ret (case p of Some p' \<Rightarrow> Some (totalPoints p') | None \<Rightarrow> None))
     | Some rw \<Rightarrow>
         try_catch
           (bnd (resolvePassportId isAddress this addressOrPassportId) (\<lambda>passportId.
            bnd (await (RewardsGetPoints passportId) (rewards_getPoints rw passportId))
              (\<lambda>points.
            bnd (toNumber points) (\<lambda>n. ret (Some n)))))
           (\<lambda>error. ret None))"

record pointBreakdown =
  pb_holding :: int
  pb_platform :: int
  pb_referral :: int
  pb_total :: int

definition getPointBreakdown ::
  "(string \<Rightarrow> bool) \<Rightarrow> sdk \<Rightarrow> handle \<Rightarrow> pointBreakdown option io" where
  "getPointBreakdown isAddress this addressOrPassportId =
     bnd (ensureConnected this) (\<lambda>_.
     case rewards (sdk_contracts this) of
       None \<Rightarrow> ret None
     | Some rw \<Rightarrow>
         try_catch
           (bnd (resolvePassportId isAddress this addressOrPassportId) (\<lambda>passportId.
            bnd (await (RewardsGetPointBreakdown passportId)
                       (rewards_getPointBreakdown rw passportId))
              (\<lambda>(holding, platform, referral, total).
            bnd (toNumber holding) (\<lambda>h.
            bnd (toNumber platform) (\<lambda>p.
            bnd (toNumber referral) (\<lambda>r.
            bnd (toNumber total) (\<lambda>t.
            ret (Some \<lparr>pb_holding = h, pb_platform = p, pb_referral = r,
                       pb_total = t\<rparr>))))))))
           (\<lambda>error. ret None))"

subsection \<open>Convenience functions\<close>

text \<open>
  The \<open>for (const platform in passport.verifications)\<close> loop of
  \<open>getUserVerifications\<close>, over the entries of the object in their order.
\<close>

fun activeIdentifiers ::
  "(string \<times> verification) list \<Rightarrow> (string \<times> string) list \<Rightarrow> (string \<times> string) list" where
  "activeIdentifiers [] result = result"
| "activeIdentifiers ((platform, v) # rest) result =
     activeIdentifiers rest
       (if active v then AList.update platform (identifier_v v) result else result)"

definition getUserVerifications :: "sdk \<Rightarrow> handle \<Rightarrow> (string \<times> string) list option io" where
  "getUserVerifications this address =
     bnd (getPassport this address) (\<lambda>p.
     case p of
       None \<Rightarrow> ret None
     | Some p' \<Rightarrow> ret (Some (activeIdentifiers (verifications p') [])))"

text \<open>
  \<open>passport.platforms.filter(platform => passport.verifications[platform].active)\<close>:
  reading \<open>active\<close> of a platform that has no entry throws a TypeError.
\<close>

fun filterActive :: "(string \<times> verification) list \<Rightarrow> string list \<Rightarrow> string list io" where
  "filterActive verifs [] = ret []"
| "filterActive verifs (platform # rest) =
     (case map_of verifs platform of
        None \<Rightarrow> throw (TypeError ''Cannot read properties of undefined'')
      | Some v \<Rightarrow>
          bnd (filterActive verifs rest) (\<lambda>kept.
          ret (if active v then platform # kept else kept)))"

definition socialPlatforms :: "string list" where
  "socialPlatforms = [''twitter'', ''discord'', ''telegram'', ''instagram'']"

definition devPlatforms :: "string list" where
  "devPlatforms = [''github'', ''gitlab'']"

definition chainPlatforms :: "string list" where
  "chainPlatforms = [''solana'', ''ethereum'']"

text \<open>The chain of conditionals that both SDKs use for the \<open>grade\<close> property.\<close>

definition gradeOf :: "int \<Rightarrow> string" where
  "gradeOf totalScore' =
     (if totalScore' \<ge> 80 then ''A''
      else if totalScore' \<ge> 60 then ''B''
      else if totalScore' \<ge> 40 then ''C''
      else if totalScore' \<ge> 20 then ''D'' else ''F'')"

record scoreBreakdown =
  platformCount :: int
  ageBonus :: int
  diversityBonus :: int
  totalScore :: int

record scoreBreakdownR = scoreBreakdown +
  pointsBonus :: int

record 'b strength =
  score :: int
  grade :: string
  breakdown :: 'b
  activePlatforms :: int
  accountAge :: int

text \<open>
  \<open>getVerificationStrength\<close>; \<open>now\<close> is the value of \<open>new Date()\<close>, in milliseconds.
  \<open>Math.floor(a / b)\<close> of integers is \<open>a div b\<close>.
\<close>

definition getVerificationStrength ::
  "sdk \<Rightarrow> handle \<Rightarrow> int \<Rightarrow> scoreBreakdownR strength option io" where
  "getVerificationStrength this address now =
     bnd (getPassport this address) (\<lambda>p.
     case p of
       None \<Rightarrow> ret None
     | Some p' \<Rightarrow>
         bnd (filterActive (verifications p') (platforms p')) (\<lambda>act.
         let score0 = 0;
             platformCount' = min (int (length act) * 15) 75;
             score1 = score0 + platformCount';
             ageInDays = (now - createdAt p') div (1000 * 60 * 60 * 24);
             ageBonus' = min (ageInDays div 30) 10;
             score2 = score1 + ageBonus';
             types = filter (\<lambda>b. b)
                       [list_ex (\<lambda>x. x \<in> set socialPlatforms) act,
                        list_ex (\<lambda>x. x \<in> set devPlatforms) act,
                        list_ex (\<lambda>x. x \<in> set chainPlatforms) act];
             diversityBonus' = (if length types \<ge> 2 then 10 else 0);
             score3 = (if length types \<ge> 2 then score2 + 10 else score2);
             pointsBonus' = (if totalPoints p' > 0 then min (totalPoints p' div 100) 5 else 0);
             score4 = (if totalPoints p' > 0 then score3 + pointsBonus' else score3);
             totalScore' = min score4 100
         in ret (Some \<lparr>score = totalScore', grade = gradeOf totalScore',
                       breakdown = \<lparr>platformCount = platformCount', ageBonus = ageBonus',
                                       diversityBonus = diversityBonus',
                                       totalScore = totalScore',
                                       pointsBonus = pointsBonus'\<rparr>,
                       activePlatforms = int (length act), accountAge = ageInDays\<rparr>)))"

section \<open>The single-source SDK\<close>

definition ensureConnected_single :: "sdk_single \<Rightarrow> unit io" where
  "ensureConnected_single this =
     (if \<not> isConnected_single this
      then throw (Error ''Passly SDK not connected. Call connect() first.'')
      else ret ())"

text \<open>\<open>this.contract\<close>, which is \<open>null\<close> until \<open>connect\<close> has run.\<close>

definition contractOf :: "sdk_single \<Rightarrow> registryS io" where
  "contractOf this =
     (case contract_single this of
        None \<Rightarrow> throw (TypeError ''Cannot read properties of null'')
      | Some reg \<Rightarrow> ret reg)"

definition getPassportId_single :: "sdk_single \<Rightarrow> handle \<Rightarrow> int option io" where
  "getPassportId_single this address =
     bnd (ensureConnected_single this) (\<lambda>_.
     try_catch
       (bnd (contractOf this) (\<lambda>reg.
        bnd (await (GetPassportByAddress address) (getPassportByAddress reg address)) (\<lambda>passportId.
        bnd (toNumber passportId) (\<lambda>n. ret (Some n)))))
       (\<lambda>error.
          if includes_str (message error) ''User has no passport'' then ret None
          else throw error))"

definition hasPassport_single :: "sdk_single \<Rightarrow> handle \<Rightarrow> bool io" where
  "hasPassport_single this address =
     bnd (getPassportId_single this address) (\<lambda>passportId. ret (passportId \<noteq> None))"

text \<open>The loop over the platform list; here a failing call is not caught.\<close>

fun gatherVerifications_single ::
  "registryS \<Rightarrow> int \<Rightarrow> string list \<Rightarrow> (string \<times> verification) list
     \<Rightarrow> (string \<times> verification) list io" where
  "gatherVerifications_single reg passportId [] verifs = ret verifs"
| "gatherVerifications_single reg passportId (platform # rest) verifs =
     bnd (await (GetVerification passportId platform)
                (getVerification reg passportId platform))
       (\<lambda>(ident, verifiedAt', proofHash', active').
     bnd (toNumber verifiedAt') (\<lambda>t.
     gatherVerifications_single reg passportId rest
       (AList.update platform
          \<lparr>identifier_v = ident, verifiedAt = t * 1000, proofHash = proofHash',
           active = active', pointsAwarded = None\<rparr> verifs)))"

definition getPassport_single :: "sdk_single \<Rightarrow> handle \<Rightarrow> passport option io" where
  "getPassport_single this address =
     bnd (ensureConnected_single this) (\<lambda>_.
     bnd (try_catch (getPassportId_single this address) (\<lambda>error. ret None)) (\<lambda>passportId.
     if falsyId passportId then ret None
     else
       bnd (contractOf this) (\<lambda>reg.
       bnd (await (GetPassportData (the passportId)) (getPassportData reg (the passportId)))
         (\<lambda>(owner', createdAt', verificationCount', category').
       bnd (await (GetVerifiedPlatforms (the passportId))
                  (getVerifiedPlatforms reg (the passportId))) (\<lambda>platforms'.
       bnd (gatherVerifications_single reg (the passportId) platforms' []) (\<lambda>verifs.
       bnd (toNumber createdAt') (\<lambda>createdAtN.
       bnd (toNumber verificationCount') (\<lambda>verificationCountN.
       ret (Some \<lparr>passport_id = the passportId, owner = owner',
                  createdAt = createdAtN * 1000, verificationCount = verificationCountN,
                  category = category', platforms = platforms',
                  verifications = verifs\<rparr>)))))))))"

definition getVerifications_single ::
  "sdk_single \<Rightarrow> int \<Rightarrow> (string \<times> verification) list io" where
  "getVerifications_single this passportId =
     bnd (ensureConnected_single this) (\<lambda>_.
     bnd (contractOf this) (\<lambda>reg.
     bnd (await (GetVerifiedPlatforms passportId) (getVerifiedPlatforms reg passportId))
       (\<lambda>platforms'.
     gatherVerifications_single reg passportId platforms' [])))"

definition getUserVerifications_single ::
  "sdk_single \<Rightarrow> handle \<Rightarrow> (string \<times> string) list option io" where
  "getUserVerifications_single this address =
     bnd (getPassport_single this address) (\<lambda>p.
     case p of
       None \<Rightarrow> ret None
     | Some p' \<Rightarrow> ret (Some (activeIdentifiers (verifications p') [])))"

text \<open>
  \<open>getEarliestVerification\<close>. The loop keeps \<open>earliest\<close> (\<open>earliestDate\<close> is its
  \<open>verifiedAt\<close>); a \<open>Date\<close> object is truthy, so \<open>!earliestDate\<close> holds only while
  nothing has been kept. The \<open>humanReadable\<close> text of the result is left out.
\<close>

record earliest =
  earliest_platform :: string
  earliest_identifier :: string
  earliest_verifiedAt :: int
  earliest_proofHash :: string
  ageInDays :: int

fun earliestLoop ::
  "(string \<times> verification) list \<Rightarrow> string list \<Rightarrow> (string \<times> verification) option
     \<Rightarrow> (string \<times> verification) option io" where
  "earliestLoop verifs [] e = ret e"
| "earliestLoop verifs (platform # rest) e =
     (case map_of verifs platform of
        None \<Rightarrow> throw (TypeError ''Cannot read properties of undefined'')
      | Some v \<Rightarrow>
          earliestLoop verifs rest
            (if active v \<and> (case e of None \<Rightarrow> True
                             | Some (ep, ev) \<Rightarrow> verifiedAt v < verifiedAt ev)
             then Some (platform, v) else e))"

definition getEarliestVerification :: "sdk_single \<Rightarrow> handle \<Rightarrow> int \<Rightarrow> earliest option io" where
  "getEarliestVerification this address now =
     bnd (getPassport_single this address) (\<lambda>p.
     case p of
       None \<Rightarrow> ret None
     | Some p' \<Rightarrow>
         if length (platforms p') = 0 then ret None
         else
           bnd (earliestLoop (verifications p') (platforms p') None) (\<lambda>e.
           case e of
             Some (ep, ev) \<Rightarrow>
               (let ageInMs = now - verifiedAt ev;
                    ageInDays' = ageInMs div (1000 * 60 * 60 * 24)
                in ret (Some \<lparr>earliest_platform = ep, earliest_identifier = identifier_v ev,
                              earliest_verifiedAt = verifiedAt ev,
                              earliest_proofHash = proofHash ev, ageInDays = ageInDays'\<rparr>))
           | None \<Rightarrow> ret None))"

text \<open>
  \<open>getVerificationStrength\<close> of the single-source SDK. It fetches the passport, then
  calls \<open>getEarliestVerification\<close>, which fetches it again; \<open>now\<close> is the
  \<open>new Date()\<close> read there. \<open>Math.floor(ageInDays / 24.33)\<close> divides by a
  constant that is not an integer, in IEEE-754 double arithmetic, which the integers of
  this model do not contain (the rounded quotient can differ from the exact one, for
  instance at negative multiples of 2433 days). The function \<open>floorDiv2433\<close> that
  maps \<open>ageInDays\<close> to that value is therefore a parameter.
\<close>

definition getVerificationStrength_single ::
  "(int \<Rightarrow> int) \<Rightarrow> sdk_single \<Rightarrow> handle \<Rightarrow> int
     \<Rightarrow> scoreBreakdown strength option io" where
  "getVerificationStrength_single floorDiv2433 this address now =
     bnd (getPassport_single this address) (\<lambda>p.
     case p of
       None \<Rightarrow> ret None
     | Some p' \<Rightarrow>
         bnd (filterActive (verifications p') (platforms p')) (\<lambda>act.
         let score0 = 0;
             platformCount' = min (int (length act) * 20) 80;
             score1 = score0 + platformCount'
         in bnd (getEarliestVerification this address now) (\<lambda>e.
         let ageBonus' = (case e of
                            Some e' \<Rightarrow> min (floorDiv2433 (ageInDays e')) 15
                          | None \<Rightarrow> 0);
             score2 = score1 + ageBonus';
             hasSocial = list_ex (\<lambda>x. x \<in> set socialPlatforms) act;
             hasDev = list_ex (\<lambda>x. x \<in> set devPlatforms) act;
             diversityBonus' = (if hasSocial \<and> hasDev then 5 else 0);
             score3 = (if hasSocial \<and> hasDev then score2 + 5 else score2);
             totalScore' = min score3 100
         in ret (Some \<lparr>score = totalScore', grade = gradeOf totalScore',
                       breakdown = \<lparr>platformCount = platformCount', ageBonus = ageBonus',
                                    diversityBonus = diversityBonus',
                                    totalScore = totalScore'\<rparr>,
                       activePlatforms = int (length act),
                       accountAge = (case e of Some e' \<Rightarrow> ageInDays e' | None \<Rightarrow> 0)\<rparr>))))"

text \<open>
  \<open>getUsersByCategory\<close>. \<open>probe\<close> is the body of the \<open>try\<close> block for one
  identifier: it gives the results and the count of matches after the iteration.
  The \<open>catch\<close> block is empty, so a failing iteration leaves both as they were.
\<close>

definition probe ::
  "sdk_single \<Rightarrow> string \<Rightarrow> int \<Rightarrow> int \<Rightarrow> passportInfo list
     \<Rightarrow> (passportInfo list \<times> int) io" where
  "probe this normalizedCategory currentId found results =
     bnd (contractOf this) (\<lambda>reg.
     bnd (await (GetPassportData currentId) (getPassportData reg currentId))
       (\<lambda>(owner', createdAt', verificationCount', passportCategory).
     if toLowerCase passportCategory = normalizedCategory then
       bnd (await (GetVerifiedPlatforms currentId) (getVerifiedPlatforms reg currentId))
         (\<lambda>platforms'.
       bnd (toNumber createdAt') (\<lambda>createdAtN.
       bnd (toNumber verificationCount') (\<lambda>verificationCountN.
       ret (results @ [\<lparr>passport_id = currentId, owner = owner',
                        createdAt = createdAtN * 1000,
                        verificationCount = verificationCountN,
                        category = passportCategory, platforms = platforms'\<rparr>],
            found + 1))))
     else ret (results, found)))"

function usersLoop ::
  "sdk_single \<Rightarrow> string \<Rightarrow> int \<Rightarrow> int \<Rightarrow> int \<Rightarrow> int \<Rightarrow> int \<Rightarrow> passportInfo list
     \<Rightarrow> passportInfo list io" where
  "usersLoop this normalizedCategory limit maxAttempts currentId found attempts results =
     (if found < limit \<and> attempts < maxAttempts then
        bnd (try_catch (probe this normalizedCategory currentId found results)
                       (\<lambda>error. ret (results, found)))
            (\<lambda>(results', found').
               usersLoop this normalizedCategory limit maxAttempts (currentId + 1) found'
                 (attempts + 1) results')
      else ret results)"
  by pat_completeness auto
termination
  by (relation "measure (\<lambda>(this, normalizedCategory, limit, maxAttempts, currentId, found,
                           attempts, results). nat (maxAttempts - attempts))") auto

declare usersLoop.simps [simp del]

definition getUsersByCategory ::
  "sdk_single \<Rightarrow> string \<Rightarrow> int \<Rightarrow> int \<Rightarrow> passportInfo list io" where
  "getUsersByCategory this category' limit startId =
     bnd (ensureConnected_single this) (\<lambda>_.
     let normalizedCategory = toLowerCase category';
         maxAttempts = limit * 10
     in usersLoop this normalizedCategory limit maxAttempts startId 0 0 [])"

section \<open>Observations on call logs and fetches\<close>

text \<open>The identifiers whose base record a call log fetched, in order.\<close>

fun probedId :: "call \<Rightarrow> int option" where
  "probedId (GetPassportData i) = Some i"
| "probedId c = None"

definition probedIds :: "call list \<Rightarrow> int list" where
  "probedIds l = List.map_filter probedId l"

fun isRewardsCall :: "call \<Rightarrow> bool" where
  "isRewardsCall (RewardsGetPoints i) = True"
| "isRewardsCall (RewardsGetPointBreakdown i) = True"
| "isRewardsCall c = False"

text \<open>
  What the detail fetch of one platform yields in the multi-source SDK, taken alone:
  the verification, or \<open>None\<close> when the call or the decoding of its timestamp fails.
\<close>

definition loaded :: "registryR \<Rightarrow> int \<Rightarrow> string \<Rightarrow> verification option" where
  "loaded reg passportId platform =
     (case getVerification reg passportId platform of
        Inl e \<Rightarrow> None
      | Inr (ident, verifiedAt', proofHash', active', pointsAwarded') \<Rightarrow>
          if verifiedAt' \<le> 9007199254740991
          then Some \<lparr>identifier_v = ident, verifiedAt = int verifiedAt' * 1000,
                     proofHash = proofHash', active = active',
                     pointsAwarded = Some pointsAwarded'\<rparr>
          else None)"

text \<open>
  The three fixed platform sets of the diversity bonus, written out: social, developer
  and chain platforms.
\<close>

definition platformSets :: "string set set" where
  "platformSets =
     {{''twitter'', ''discord'', ''telegram'', ''instagram''},
      {''github'', ''gitlab''},
      {''solana'', ''ethereum''}}"

section \<open>Example registries and sessions\<close>

definition notFound :: error where
  "notFound = Error ''execution reverted: User has no passport''"

definition noSuchPassport :: error where
  "noSuchPassport = Error ''execution reverted: Passport does not exist''"

definition rewardsB :: rewards_contract where
  "rewardsB = \<lparr>rewards_getPoints = (\<lambda>i. Inr 250),
               rewards_getPointBreakdown = (\<lambda>i. Inr (100, 120, 30, 250))\<rparr>"

definition sdkOf :: "registryR \<Rightarrow> rewards_contract option \<Rightarrow> sdk" where
  "sdkOf reg rw =
     \<lparr>sdk_config = emptyConfig,
      sdk_contracts =
        \<lparr>passly = Some reg,
         platforms_contract = Some (Contract ''0xd2FEEa5775c171D85648198AeB77377fD9AdFe98''),
         archives = Some (Contract ''0xbC57EA3ff9BDE13087b907Dc02e86f08C57574E7''),
         rewards = rw,
         leaderboard = Some (Contract ''0x7f9c4841346d0ef7970daF02aE3663f8AC5bE540'')\<rparr>,
      isConnected = True\<rparr>"

text \<open>The single-source view of a registry: the shorter tuples of the older ABI.\<close>

definition singleView :: "registryR \<Rightarrow> registryS" where
  "singleView reg =
     \<lparr>getPassportByAddress = getPassportByAddress reg,
      getPassportData = (\<lambda>i. case getPassportData reg i of
                              Inl e \<Rightarrow> Inl e
                            | Inr (ow, cr, vc, cat, tp, rc, tr) \<Rightarrow> Inr (ow, cr, vc, cat)),
      getVerifiedPlatforms = getVerifiedPlatforms reg,
      getVerification = (\<lambda>i p. case getVerification reg i p of
                                Inl e \<Rightarrow> Inl e
                              | Inr (ident, t, h, a, pa) \<Rightarrow> Inr (ident, t, h, a))\<rparr>"

definition sdkSingleOf :: "registryS \<Rightarrow> sdk_single" where
  "sdkSingleOf reg = \<lparr>contract_single = Some reg, isConnected_single = True\<rparr>"

text \<open>
  Scenario B: passport 7 of \<open>0xB0b\<close>, six active platforms (three social, two
  developer, one chain), created at second 1700000000, 250 points; \<open>nowB\<close> is 400 days
  later.
\<close>

definition registryB :: registryR where
  "registryB =
     \<lparr>getPassportByAddress = (\<lambda>a. if a = Str ''0xB0b'' then Inr 7 else Inl notFound),
      getPassportData = (\<lambda>i. if i = 7
         then Inr (''0xB0b'', 1700000000, 6, ''developer'', 250, ''BOB'', 0)
         else Inl noSuchPassport),
      getVerifiedPlatforms = (\<lambda>i. if i = 7
         then Inr [''twitter'', ''discord'', ''telegram'', ''github'', ''gitlab'', ''solana'']
         else Inl noSuchPassport),
      getVerification = (\<lambda>i p. if i = 7
         then Inr (''bob'', 1700000000, ''0x01'', True, True)
         else Inl noSuchPassport)\<rparr>"

definition nowB :: int where
  "nowB = (1700000000 + 400 * 86400) * 1000"

definition sdkB :: sdk where
  "sdkB = sdkOf registryB (Some rewardsB)"

definition sdkC :: sdk where
  "sdkC = sdkOf registryB None"

text \<open>
  A passport with no verified platform and no points, read by a client whose clock is
  one second behind the block timestamp of its creation.
\<close>

definition registryFresh :: registryR where
  "registryFresh =
     \<lparr>getPassportByAddress = (\<lambda>a. if a = Str ''0xF00'' then Inr 3 else Inl notFound),
      getPassportData = (\<lambda>i. if i = 3
         then Inr (''0xF00'', 1700000000, 0, ''human'', 0, ''FOO'', 0)
         else Inl noSuchPassport),
      getVerifiedPlatforms = (\<lambda>i. if i = 3 then Inr [] else Inl noSuchPassport),
      getVerification = (\<lambda>i p. Inl noSuchPassport)\<rparr>"

definition nowFresh :: int where
  "nowFresh = 1700000000 * 1000 - 1000"

text \<open>
  Passport 5 of \<open>0xCa7\<close>: twitter (active) loads, github (revoked) loads, discord
  fails to load.
\<close>

definition registryPartial :: registryR where
  "registryPartial =
     \<lparr>getPassportByAddress = (\<lambda>a. if a = Str ''0xCa7'' then Inr 5 else Inl notFound),
      getPassportData = (\<lambda>i. if i = 5
         then Inr (''0xCa7'', 1700000000, 3, ''creator'', 40, ''CAT'', 1)
         else Inl noSuchPassport),
      getVerifiedPlatforms = (\<lambda>i. if i = 5
         then Inr [''twitter'', ''github'', ''discord''] else Inl noSuchPassport),
      getVerification = (\<lambda>i p.
         if i = 5 \<and> p = ''twitter'' then Inr (''cat'', 1700000100, ''0x0a'', True, True)
         else if i = 5 \<and> p = ''github'' then Inr (''cat-dev'', 1700000200, ''0x0b'', False, False)
         else Inl (Error ''timeout''))\<rparr>"

text \<open>Passport 9 of \<open>0xD09\<close>: twitter is active, github has been revoked.\<close>

definition registryMixed :: registryR where
  "registryMixed =
     \<lparr>getPassportByAddress = (\<lambda>a. if a = Str ''0xD09'' then Inr 9 else Inl notFound),
      getPassportData = (\<lambda>i. if i = 9
         then Inr (''0xD09'', 1700000000, 2, ''human'', 10, ''DOG'', 0)
         else Inl noSuchPassport),
      getVerifiedPlatforms = (\<lambda>i. if i = 9
         then Inr [''twitter'', ''github''] else Inl noSuchPassport),
      getVerification = (\<lambda>i p.
         if i = 9 \<and> p = ''twitter'' then Inr (''dog'', 1700000100, ''0x0c'', True, True)
         else if i = 9 \<and> p = ''github'' then Inr (''dog-dev'', 1700000200, ''0x0d'', False, False)
         else Inl noSuchPassport)\<rparr>"

text \<open>A registry whose node is unreachable, and one that answers identifier 0.\<close>

definition registryDown :: registryR where
  "registryDown =
     \<lparr>getPassportByAddress = (\<lambda>a. Inl (Error ''network timeout'')),
      getPassportData = (\<lambda>i. Inl (Error ''network timeout'')),
      getVerifiedPlatforms = (\<lambda>i. Inl (Error ''network timeout'')),
      getVerification = (\<lambda>i p. Inl (Error ''network timeout''))\<rparr>"

definition registryZero :: registryR where
  "registryZero =
     \<lparr>getPassportByAddress = (\<lambda>a. Inr 0),
      getPassportData = (\<lambda>i. Inl noSuchPassport),
      getVerifiedPlatforms = (\<lambda>i. Inl noSuchPassport),
      getVerification = (\<lambda>i p. Inl noSuchPassport)\<rparr>"

text \<open>
  Passports 1 to 4 for the scan: 1 and 4 are developers (in different letter case),
  2 does not exist, 3 is a creator.
\<close>

definition registryScan :: registryS where
  "registryScan =
     \<lparr>getPassportByAddress = (\<lambda>a. Inl notFound),
      getPassportData = (\<lambda>i.
         if i = 1 then Inr (''0xA1'', 1700000000, 2, ''Developer'')
         else if i = 3 then Inr (''0xA3'', 1700000300, 1, ''creator'')
         else if i = 4 then Inr (''0xA4'', 1700000400, 0, ''developer'')
         else Inl noSuchPassport),
      getVerifiedPlatforms = (\<lambda>i. if i = 1 then Inr [''github'', ''twitter''] else Inr []),
      getVerification = (\<lambda>i p. Inl noSuchPassport)\<rparr>"

text \<open>A provider on which every contract constructor succeeds.\<close>

definition providerOk :: provider where
  "providerOk =
     \<lparr>passlyAt = (\<lambda>a. Inr registryB), rewardsAt = (\<lambda>a. Inr rewardsB),
      contractAt = (\<lambda>a. Inr (Contract a))\<rparr>"

section \<open>Basic facts about sequencing\<close>

lemma bnd_ret [simp]: "bnd (ret x) f = f x"
  by (simp add: bnd_def ret_def split: prod.splits)

lemma bnd_throw [simp]: "bnd (throw e) f = throw e"
  by (simp add: bnd_def throw_def)

lemma try_catch_ret [simp]: "try_catch (ret x) h = ret x"
  by (simp add: try_catch_def ret_def)

lemma try_catch_throw [simp]: "try_catch (throw e) h = h e"
  by (simp add: try_catch_def throw_def split: prod.splits)

lemma bnd_Inr [simp]: "bnd (l, Inr x) f = (l @ fst (f x), snd (f x))"
  by (simp add: bnd_def split: prod.splits)

lemma bnd_Inl [simp]: "bnd (l, Inl e) f = (l, Inl e)"
  by (simp add: bnd_def)

lemma try_catch_Inr [simp]: "try_catch (l, Inr x) h = (l, Inr x)"
  by (simp add: try_catch_def)

lemma try_catch_Inl [simp]: "try_catch (l, Inl e) h = (l @ fst (h e), snd (h e))"
  by (simp add: try_catch_def split: prod.splits)

lemma fst_ret [simp]: "fst (ret x) = []"
  by (simp add: ret_def)

lemma snd_ret [simp]: "snd (ret x) = Inr x"
  by (simp add: ret_def)

lemma fst_throw [simp]: "fst (throw e) = []"
  by (simp add: throw_def)

lemma snd_throw [simp]: "snd (throw e) = Inl e"
  by (simp add: throw_def)

lemma bnd_Inr_iff:
  "bnd m f = (l, Inr y) \<longleftrightarrow> (\<exists>l1 x l2. m = (l1, Inr x) \<and> f x = (l2, Inr y) \<and> l = l1 @ l2)"
  by (cases m; cases "snd m") (auto simp: bnd_def split: prod.splits)

lemma toNumber_Inr_iff:
  "toNumber n = (l, Inr x) \<longleftrightarrow> (l = [] \<and> x = int n \<and> n \<le> 9007199254740991)"
  by (auto simp: toNumber_def ret_def throw_def)

lemma toNumber_small: "n \<le> 9007199254740991 \<Longrightarrow> toNumber n = ret (int n)"
  by (simp add: toNumber_def)

lemma lift_Inr_iff: "lift r = (l, Inr x) \<longleftrightarrow> (l = [] \<and> r = Inr x)"
  by (auto simp: lift_def)

lemma orDefault_nonempty: "b \<noteq> [] \<Longrightarrow> orDefault a b \<noteq> []"
  by (simp add: orDefault_def split: option.splits)

lemma fst_toNumber [simp]: "fst (toNumber n) = []"
  by (simp add: toNumber_def)

lemma fst_bnd:
  "fst (bnd m f) = fst m @ (case snd m of Inl e \<Rightarrow> [] | Inr x \<Rightarrow> fst (f x))"
  by (cases m; cases "snd m") (auto simp: bnd_def split: prod.splits)

lemma fst_try_catch:
  "fst (try_catch m h) = fst m @ (case snd m of Inl e \<Rightarrow> fst (h e) | Inr x \<Rightarrow> [])"
  by (cases m; cases "snd m") (auto simp: try_catch_def split: prod.splits)

lemma fst_await [simp]: "fst (await c r) = [c]"
  by (simp add: await_def)

lemma getPassportId_fail:
  assumes "isConnected this" "passly (sdk_contracts this) = Some reg"
    "getPassportByAddress reg address = Inl e"
  shows "getPassportId this address =
           ([GetPassportByAddress address],
            if includes_str (message e) ''User has no passport'' then Inr None else Inl e)"
  using assms
  by (simp add: getPassportId_def ensureConnected_def passlyContract_def await_def ret_def throw_def)

section \<open>Failures of the reverse lookup\<close>

text \<open>
  Claim C4, as the code has it. When the reverse lookup of the identity registry fails
  with an error whose message does not contain \<open>User has no passport\<close>,
  \<open>getPassportId\<close>, \<open>hasPassport\<close> and \<open>_resolvePassportId\<close> (on an address) throw
  that same error, after the one call; \<open>getPassport\<close> does not: its own
  \<open>try\<close>/\<open>catch\<close> around \<open>getPassportId\<close> turns every error into \<open>null\<close>. When
  the message does contain \<open>User has no passport\<close>, \<open>getPassportId\<close> returns
  \<open>null\<close>, \<open>hasPassport\<close> false and \<open>getPassport\<close> \<open>null\<close>.
\<close>

theorem C4_lookup_failure:
  assumes "isConnected this" and "passly (sdk_contracts this) = Some reg"
    and "getPassportByAddress reg address = Inl e"
  shows "(\<not> includes_str (message e) ''User has no passport'' \<longrightarrow>
            getPassportId this address = ([GetPassportByAddress address], Inl e) \<and>
            hasPassport this address = ([GetPassportByAddress address], Inl e) \<and>
            (\<forall>a. address = Str a \<and> \<not> isDigits a \<and> isAddress a \<longrightarrow>
               resolvePassportId isAddress this address = ([GetPassportByAddress address], Inl e)) \<and>
            getPassport this address = ([GetPassportByAddress address], Inr None)) \<and>
         (includes_str (message e) ''User has no passport'' \<longrightarrow>
            getPassportId this address = ([GetPassportByAddress address], Inr None) \<and>
            hasPassport this address = ([GetPassportByAddress address], Inr False) \<and>
            getPassport this address = ([GetPassportByAddress address], Inr None))"
  using assms(1) getPassportId_fail[OF assms]
  by (auto simp: hasPassport_def getPassport_def resolvePassportId_def ensureConnected_def
        falsyId_def ret_def)

text \<open>
  Claim C4 as stated says that \<open>getPassport\<close> re-raises such a failure. On an
  unreachable node the lookup fails with \<open>network timeout\<close>, and \<open>getPassport\<close>
  returns \<open>null\<close>.
\<close>

theorem C4_counterexample:
  "getPassportByAddress registryDown (Str ''0xD0e'') = Inl (Error ''network timeout'') \<and>
   \<not> includes_str (message (Error ''network timeout'')) ''User has no passport'' \<and>
   getPassport (sdkOf registryDown None) (Str ''0xD0e'') =
     ([GetPassportByAddress (Str ''0xD0e'')], Inr None)"
  by (simp add: registryDown_def sdkOf_def getPassport_def getPassportId_def
        ensureConnected_def passlyContract_def await_def ret_def throw_def falsyId_def)

text \<open>Both cases at concrete sessions: the unreachable node, and an address without a passport.\<close>

theorem C4_lookup_failure_witness:
  "isConnected (sdkOf registryDown None) \<and>
   passly (sdk_contracts (sdkOf registryDown None)) = Some registryDown \<and>
   getPassportByAddress registryDown (Str ''0xD0e'') = Inl (Error ''network timeout'') \<and>
   getPassportId (sdkOf registryDown None) (Str ''0xD0e'') =
     ([GetPassportByAddress (Str ''0xD0e'')], Inl (Error ''network timeout'')) \<and>
   hasPassport (sdkOf registryDown None) (Str ''0xD0e'') =
     ([GetPassportByAddress (Str ''0xD0e'')], Inl (Error ''network timeout'')) \<and>
   resolvePassportId (\<lambda>a. True) (sdkOf registryDown None) (Str ''0xD0e'') =
     ([GetPassportByAddress (Str ''0xD0e'')], Inl (Error ''network timeout'')) \<and>
   getPassport (sdkOf registryDown None) (Str ''0xD0e'') =
     ([GetPassportByAddress (Str ''0xD0e'')], Inr None) \<and>
   isConnected sdkB \<and> passly (sdk_contracts sdkB) = Some registryB \<and>
   getPassportByAddress registryB (Str ''0xA11ce'') = Inl notFound \<and>
   getPassportId sdkB (Str ''0xA11ce'') = ([GetPassportByAddress (Str ''0xA11ce'')], Inr None) \<and>
   hasPassport sdkB (Str ''0xA11ce'') = ([GetPassportByAddress (Str ''0xA11ce'')], Inr False) \<and>
   getPassport sdkB (Str ''0xA11ce'') = ([GetPassportByAddress (Str ''0xA11ce'')], Inr None)"
proof -
  have d1: "isConnected (sdkOf registryDown None)"
    and d2: "passly (sdk_contracts (sdkOf registryDown None)) = Some registryDown"
    and d3: "getPassportByAddress registryDown (Str ''0xD0e'') = Inl (Error ''network timeout'')"
    by (simp_all add: sdkOf_def registryDown_def)
  have d4: "\<not> includes_str (message (Error ''network timeout'')) ''User has no passport''"
    by simp
  have d5: "\<not> isDigits ''0xD0e''"
    by (simp add: isDigits_def)
  have b1: "isConnected sdkB" and b2: "passly (sdk_contracts sdkB) = Some registryB"
    and b3: "getPassportByAddress registryB (Str ''0xA11ce'') = Inl notFound"
    by (simp_all add: sdkB_def sdkOf_def registryB_def)
  have b4: "includes_str (message notFound) ''User has no passport''"
    by (simp add: notFound_def)
  show ?thesis
    using C4_lookup_failure[OF d1 d2 d3, of "\<lambda>a. True"] C4_lookup_failure[OF b1 b2 b3, of "\<lambda>a. True"]
      d1 d2 d3 d4 d5 b1 b2 b3 b4
    by simp
qed

section \<open>Point breakdown without a rewards contract\<close>

text \<open>
  Claim C8. In a connected session whose rewards contract is not bound,
  \<open>getPointBreakdown\<close> returns \<open>null\<close> for every handle, throws nothing and makes
  no remote call at all, so none to the rewards contract.
\<close>

theorem C8_breakdown_unbound:
  assumes "isConnected this" and "rewards (sdk_contracts this) = None"
  shows "getPointBreakdown isAddress this h = ([], Inr None) \<and>
         \<not> list_ex isRewardsCall (fst (getPointBreakdown isAddress this h))"
  using assms by (simp add: getPointBreakdown_def ensureConnected_def ret_def)

text \<open>
  In scenario C (rewards unbound) the handle \<open>0xB0b\<close> yields \<open>null\<close> with an empty
  call log; the same handle yields a breakdown once the rewards contract is bound.
\<close>

theorem C8_breakdown_unbound_witness:
  "isConnected sdkC \<and> rewards (sdk_contracts sdkC) = None \<and>
   getPointBreakdown (\<lambda>a. True) sdkC (Str ''0xB0b'') = ([], Inr None) \<and>
   \<not> list_ex isRewardsCall (fst (getPointBreakdown (\<lambda>a. True) sdkC (Str ''0xB0b''))) \<and>
   getPointBreakdown (\<lambda>a. True) sdkB (Str ''0xB0b'') =
     ([GetPassportByAddress (Str ''0xB0b''), RewardsGetPointBreakdown 7],
      Inr (Some \<lparr>pb_holding = 100, pb_platform = 120, pb_referral = 30, pb_total = 250\<rparr>))"
proof -
  have c1: "isConnected sdkC" and c2: "rewards (sdk_contracts sdkC) = None"
    by (simp_all add: sdkC_def sdkOf_def)
  have b: "getPointBreakdown (\<lambda>a. True) sdkB (Str ''0xB0b'') =
     ([GetPassportByAddress (Str ''0xB0b''), RewardsGetPointBreakdown 7],
      Inr (Some \<lparr>pb_holding = 100, pb_platform = 120, pb_referral = 30, pb_total = 250\<rparr>))"
    by (simp add: getPointBreakdown_def sdkB_def sdkOf_def registryB_def rewardsB_def
          ensureConnected_def resolvePassportId_def isDigits_def getPassportId_def
          passlyContract_def await_def toNumber_def falsyId_def ret_def)
  show ?thesis
    using C8_breakdown_unbound[OF c1 c2, of "\<lambda>a. True" "Str ''0xB0b''"] c1 c2 b by simp
qed

section \<open>The identifier 0\<close>

text \<open>
  Claim C10. If the reverse lookup answers identifier 0 for an address, then
  \<open>getPassportId\<close> returns 0 (not \<open>null\<close>), \<open>hasPassport\<close> returns true, and
  \<open>getPassport\<close> returns \<open>null\<close>, since \<open>!passportId\<close> holds for 0. So
  \<open>hasPassport\<close> and \<open>getPassport\<close> disagree, in both SDKs.
\<close>

theorem C10_zero_identifier:
  "(isConnected this \<and> passly (sdk_contracts this) = Some reg \<and>
      getPassportByAddress reg address = Inr 0 \<longrightarrow>
      getPassportId this address = ([GetPassportByAddress address], Inr (Some 0)) \<and>
      hasPassport this address = ([GetPassportByAddress address], Inr True) \<and>
      getPassport this address = ([GetPassportByAddress address], Inr None)) \<and>
   (isConnected_single this1 \<and> contract_single this1 = Some reg1 \<and>
      getPassportByAddress reg1 address = Inr 0 \<longrightarrow>
      getPassportId_single this1 address = ([GetPassportByAddress address], Inr (Some 0)) \<and>
      hasPassport_single this1 address = ([GetPassportByAddress address], Inr True) \<and>
      getPassport_single this1 address = ([GetPassportByAddress address], Inr None))"
  by (simp add: hasPassport_def getPassport_def getPassportId_def ensureConnected_def
        passlyContract_def await_def toNumber_def ret_def falsyId_def
        hasPassport_single_def getPassport_single_def getPassportId_single_def
        ensureConnected_single_def contractOf_def)

text \<open>A registry that answers 0, seen through both SDKs.\<close>

theorem C10_zero_identifier_witness:
  "isConnected (sdkOf registryZero None) \<and>
   passly (sdk_contracts (sdkOf registryZero None)) = Some registryZero \<and>
   getPassportByAddress registryZero (Str ''0xE0'') = Inr 0 \<and>
   hasPassport (sdkOf registryZero None) (Str ''0xE0'') =
     ([GetPassportByAddress (Str ''0xE0'')], Inr True) \<and>
   getPassport (sdkOf registryZero None) (Str ''0xE0'') =
     ([GetPassportByAddress (Str ''0xE0'')], Inr None) \<and>
   isConnected_single (sdkSingleOf (singleView registryZero)) \<and>
   contract_single (sdkSingleOf (singleView registryZero)) = Some (singleView registryZero) \<and>
   getPassportByAddress (singleView registryZero) (Str ''0xE0'') = Inr 0 \<and>
   hasPassport_single (sdkSingleOf (singleView registryZero)) (Str ''0xE0'') =
     ([GetPassportByAddress (Str ''0xE0'')], Inr True) \<and>
   getPassport_single (sdkSingleOf (singleView registryZero)) (Str ''0xE0'') =
     ([GetPassportByAddress (Str ''0xE0'')], Inr None)"
proof -
  have h: "isConnected (sdkOf registryZero None)"
    "passly (sdk_contracts (sdkOf registryZero None)) = Some registryZero"
    "getPassportByAddress registryZero (Str ''0xE0'') = Inr 0"
    "isConnected_single (sdkSingleOf (singleView registryZero))"
    "contract_single (sdkSingleOf (singleView registryZero)) = Some (singleView registryZero)"
    "getPassportByAddress (singleView registryZero) (Str ''0xE0'') = Inr 0"
    by (simp_all add: sdkOf_def registryZero_def sdkSingleOf_def singleView_def)
  show ?thesis
    using C10_zero_identifier[of "sdkOf registryZero None" registryZero "Str ''0xE0''"
        "sdkSingleOf (singleView registryZero)" "singleView registryZero"] h
    by simp
qed

section \<open>The contracts bound by connect\<close>

text \<open>
  Claim C9. Whenever \<open>connect\<close> of the multi-source SDK returns, whatever the
  configuration, the session is connected, each of the five addresses is non-empty
  (a supplied one or its default constant) and all five contracts are bound. The tests
  \<open>!this.contracts.rewards\<close> of \<open>getPointBreakdown\<close> and \<open>getPoints\<close> are then
  false: for a numeric handle both go to the rewards contract, with exactly one remote
  call, instead of returning \<open>null\<close> at once or reading the passport.
\<close>

theorem C9_connect_binds_all:
  assumes "connect jsonRpcProvider this options = (l, Inr s)"
  shows "isConnected s \<and>
         passly (sdk_contracts s) \<noteq> None \<and>
         platforms_contract (sdk_contracts s) \<noteq> None \<and>
         archives (sdk_contracts s) \<noteq> None \<and>
         rewards (sdk_contracts s) \<noteq> None \<and>
         leaderboard (sdk_contracts s) \<noteq> None \<and>
         (\<exists>a. cfg_addresses (sdk_config s) = Some a \<and> addr_passly a \<noteq> [] \<and>
              addr_platforms a \<noteq> [] \<and> addr_archives a \<noteq> [] \<and> addr_rewards a \<noteq> [] \<and>
              addr_leaderboard a \<noteq> []) \<and>
         fst (getPointBreakdown isAddress s (Num n)) = [RewardsGetPointBreakdown n] \<and>
         fst (getPoints isAddress s (Num n)) = [RewardsGetPoints n]"
proof -
  have bound: "isConnected s \<and>
         passly (sdk_contracts s) \<noteq> None \<and>
         platforms_contract (sdk_contracts s) \<noteq> None \<and>
         archives (sdk_contracts s) \<noteq> None \<and>
         rewards (sdk_contracts s) \<noteq> None \<and>
         leaderboard (sdk_contracts s) \<noteq> None \<and>
         (\<exists>a. cfg_addresses (sdk_config s) = Some a \<and> addr_passly a \<noteq> [] \<and>
              addr_platforms a \<noteq> [] \<and> addr_archives a \<noteq> [] \<and> addr_rewards a \<noteq> [] \<and>
              addr_leaderboard a \<noteq> [])"
    using assms
    by (auto simp: connect_def Let_def bnd_Inr_iff lift_Inr_iff ret_def orDefault_nonempty
        split: if_splits)
  then obtain rw where rw: "rewards (sdk_contracts s) = Some rw" and con: "isConnected s"
    by auto
  have pb: "fst (getPointBreakdown isAddress s (Num n)) = [RewardsGetPointBreakdown n]"
    using rw con
    by (simp add: getPointBreakdown_def ensureConnected_def resolvePassportId_def
          fst_try_catch fst_bnd await_def split: sum.splits prod.splits)
  have pt: "fst (getPoints isAddress s (Num n)) = [RewardsGetPoints n]"
    using rw con
    by (simp add: getPoints_def ensureConnected_def resolvePassportId_def
          fst_try_catch fst_bnd await_def split: sum.splits prod.splits)
  from bound pb pt show ?thesis by simp
qed

text \<open>
  Connecting a fresh SDK object with an empty \<open>rewardsAddress\<close>: the default address
  is used and the rewards contract is bound.
\<close>

theorem C9_connect_binds_all_witness:
  "\<exists>s. connect providerOk (constructor emptyConfig) (emptyConfig\<lparr>rewardsAddress := Some []\<rparr>)
          = ([], Inr s) \<and>
        isConnected s \<and> passly (sdk_contracts s) \<noteq> None \<and>
        platforms_contract (sdk_contracts s) \<noteq> None \<and> archives (sdk_contracts s) \<noteq> None \<and>
        rewards (sdk_contracts s) \<noteq> None \<and> leaderboard (sdk_contracts s) \<noteq> None \<and>
        fst (getPointBreakdown (\<lambda>a. True) s (Num 7)) = [RewardsGetPointBreakdown 7] \<and>
        fst (getPoints (\<lambda>a. True) s (Num 7)) = [RewardsGetPoints 7]"
proof -
  have "\<exists>s. connect providerOk (constructor emptyConfig) (emptyConfig\<lparr>rewardsAddress := Some []\<rparr>)
          = ([], Inr s)"
    by (simp add: connect_def constructor_def emptyConfig_def mergeConfig_def orElse_def
          orDefault_def providerOk_def lift_def ret_def Let_def)
  then obtain s where s: "connect providerOk (constructor emptyConfig)
      (emptyConfig\<lparr>rewardsAddress := Some []\<rparr>) = ([], Inr s)" ..
  from C9_connect_binds_all[OF s, of "\<lambda>a. True" 7] s show ?thesis by blast
qed

section \<open>Passports and their verifications\<close>

lemma try_catch_Inr_iff:
  "try_catch m h = (l, Inr y) \<longleftrightarrow>
     (m = (l, Inr y) \<or> (\<exists>l1 e l2. m = (l1, Inl e) \<and> h e = (l2, Inr y) \<and> l = l1 @ l2))"
  by (cases m; cases "snd m") (auto simp: try_catch_def split: prod.splits)

text \<open>One iteration of the loop of the multi-source SDK.\<close>

lemma gather_step:
  "try_catch
     (bnd (await (GetVerification pid p) (getVerification reg pid p))
        (\<lambda>(ident, verifiedAt', proofHash', active', pointsAwarded').
           bnd (toNumber verifiedAt') (\<lambda>t.
           ret (AList.update p
                  \<lparr>identifier_v = ident, verifiedAt = t * 1000, proofHash = proofHash',
                   active = active', pointsAwarded = Some pointsAwarded'\<rparr> vs))))
     (\<lambda>error. ret vs)
   = ([GetVerification pid p],
      Inr (case loaded reg pid p of None \<Rightarrow> vs | Some v \<Rightarrow> AList.update p v vs))"
  by (cases "getVerification reg pid p")
     (auto simp: loaded_def await_def toNumber_def ret_def throw_def split: prod.splits)

lemma gatherVerifications_spec:
  "\<exists>vs'. gatherVerifications reg pid ps vs = (map (GetVerification pid) ps, Inr vs') \<and>
         (\<forall>k. map_of vs' k =
                (if k \<in> set ps \<and> loaded reg pid k \<noteq> None then loaded reg pid k
                 else map_of vs k)) \<and>
         (distinct (map fst vs) \<longrightarrow> distinct (map fst vs'))"
proof (induction ps arbitrary: vs)
  case Nil
  show ?case by (simp add: ret_def)
next
  case (Cons p ps)
  define vs1 where "vs1 = (case loaded reg pid p of None \<Rightarrow> vs | Some v \<Rightarrow> AList.update p v vs)"
  obtain vs' where g: "gatherVerifications reg pid ps vs1 = (map (GetVerification pid) ps, Inr vs')"
    and m: "\<forall>k. map_of vs' k =
                (if k \<in> set ps \<and> loaded reg pid k \<noteq> None then loaded reg pid k
                 else map_of vs1 k)"
    and d: "distinct (map fst vs1) \<longrightarrow> distinct (map fst vs')"
    using Cons.IH[of vs1] by blast
  have m1: "\<forall>k. map_of vs1 k = (if k = p \<and> loaded reg pid k \<noteq> None then loaded reg pid k else map_of vs k)"
    by (auto simp: vs1_def update_conv' split: option.splits)
  have d1: "distinct (map fst vs) \<longrightarrow> distinct (map fst vs1)"
    by (auto simp: vs1_def distinct_update split: option.splits)
  have "gatherVerifications reg pid (p # ps) vs = (map (GetVerification pid) (p # ps), Inr vs')"
    by (simp add: gather_step g flip: vs1_def)
  moreover have "\<forall>k. map_of vs' k =
                (if k \<in> set (p # ps) \<and> loaded reg pid k \<noteq> None then loaded reg pid k
                 else map_of vs k)"
    using m m1 by auto
  ultimately show ?case using d d1 by blast
qed

lemma getPassportId_Inr_iff:
  "getPassportId this a = (l, Inr r) \<longleftrightarrow>
     isConnected this \<and>
     (\<exists>reg. passly (sdk_contracts this) = Some reg \<and> l = [GetPassportByAddress a] \<and>
        (case getPassportByAddress reg a of
           Inr m \<Rightarrow> m \<le> 9007199254740991 \<and> r = Some (int m)
         | Inl e \<Rightarrow> includes_str (message e) ''User has no passport'' \<and> r = None))"
  by (cases "passly (sdk_contracts this)"; cases "getPassportByAddress (the (passly (sdk_contracts this))) a")
     (auto simp: getPassportId_def ensureConnected_def passlyContract_def await_def
        toNumber_def ret_def throw_def)

lemma getPassport_inv:
  assumes "getPassport this a = (l, Inr (Some p))"
  shows "\<exists>reg pid lg tp. passly (sdk_contracts this) = Some reg \<and> isConnected this \<and>
           gatherVerifications reg pid (platforms p) [] = (lg, Inr (verifications p)) \<and>
           totalPoints p = int tp"
  using assms unfolding getPassport_def
  by (auto simp: bnd_Inr_iff toNumber_Inr_iff ensureConnected_def passlyContract_def ret_def
        throw_def await_def
      split: if_splits option.splits prod.splits)
     blast

lemma activeIdentifiers_map_of:
  "distinct (map fst vs) \<Longrightarrow>
   map_of (activeIdentifiers vs res) k =
     (case map_of vs k of
        Some v \<Rightarrow> if active v then Some (identifier_v v) else map_of res k
      | None \<Rightarrow> map_of res k)"
proof (induction vs arbitrary: res)
  case Nil
  show ?case by simp
next
  case (Cons x vs)
  obtain pl v where x: "x = (pl, v)" by (cases x)
  from Cons.prems x have d: "distinct (map fst vs)" and nin: "pl \<notin> fst ` set vs"
    by auto
  from nin have none: "map_of vs pl = None"
    by (simp add: map_of_eq_None_iff)
  show ?case
    using none by (auto simp: x Cons.IH[OF d] update_conv' split: option.splits)
qed

lemma gather_single_distinct:
  "gatherVerifications_single reg pid ps vs = (l, Inr vs') \<Longrightarrow>
   distinct (map fst vs) \<Longrightarrow> distinct (map fst vs')"
proof (induction ps arbitrary: vs l)
  case Nil
  then show ?case by (simp add: ret_def)
next
  case (Cons p ps)
  from Cons.prems(1) show ?case
    by (auto simp: bnd_Inr_iff await_def toNumber_Inr_iff split: prod.splits
          intro!: Cons.IH distinct_update Cons.prems(2))
qed

lemma getPassport_single_inv:
  assumes "getPassport_single this a = (l, Inr (Some p))"
  shows "\<exists>reg pid lg. gatherVerifications_single reg pid (platforms p) [] = (lg, Inr (verifications p))"
  using assms unfolding getPassport_single_def
  by (auto simp: bnd_Inr_iff toNumber_Inr_iff ensureConnected_single_def contractOf_def ret_def
        throw_def await_def
      split: if_splits option.splits prod.splits)
     blast

lemma getPassport_distinct:
  assumes "getPassport this a = (l, Inr (Some p))"
  shows "distinct (map fst (verifications p))"
proof -
  from getPassport_inv[OF assms] obtain reg pid lg where
    "gatherVerifications reg pid (platforms p) [] = (lg, Inr (verifications p))" by blast
  with gatherVerifications_spec[of reg pid "platforms p" "[]"] show ?thesis by auto
qed

lemma getPassport_single_distinct:
  assumes "getPassport_single this a = (l, Inr (Some p))"
  shows "distinct (map fst (verifications p))"
proof -
  from getPassport_single_inv[OF assms] obtain reg pid lg where
    "gatherVerifications_single reg pid (platforms p) [] = (lg, Inr (verifications p))" by blast
  from gather_single_distinct[OF this] show ?thesis by simp
qed

lemma userVerifications_view:
  assumes "distinct (map fst vs)"
  shows "(\<forall>platform ident. map_of (activeIdentifiers vs []) platform = Some ident \<longleftrightarrow>
            (\<exists>v. map_of vs platform = Some v \<and> active v \<and> identifier_v v = ident)) \<and>
         (\<forall>platform \<in> fst ` set (activeIdentifiers vs []).
            \<exists>v. map_of vs platform = Some v \<and> active v) \<and>
         (\<forall>platform v. map_of vs platform = Some v \<and> \<not> active v \<longrightarrow>
            platform \<notin> fst ` set (activeIdentifiers vs []))"
proof -
  have m: "\<And>k. map_of (activeIdentifiers vs []) k =
     (case map_of vs k of
        Some v \<Rightarrow> if active v then Some (identifier_v v) else None
      | None \<Rightarrow> None)"
    by (simp add: activeIdentifiers_map_of[OF assms] split: option.splits)
  have k: "\<And>k. k \<in> fst ` set (activeIdentifiers vs []) \<longleftrightarrow>
             map_of (activeIdentifiers vs []) k \<noteq> None"
    by (simp add: map_of_eq_None_iff)
  have A: "\<forall>platform ident. map_of (activeIdentifiers vs []) platform = Some ident \<longleftrightarrow>
            (\<exists>v. map_of vs platform = Some v \<and> active v \<and> identifier_v v = ident)"
    by (auto simp: m split: option.splits if_splits)
  have B: "\<forall>platform \<in> fst ` set (activeIdentifiers vs []).
            \<exists>v. map_of vs platform = Some v \<and> active v"
  proof
    fix platform
    assume "platform \<in> fst ` set (activeIdentifiers vs [])"
    then have "map_of (activeIdentifiers vs []) platform \<noteq> None"
      using k by blast
    then show "\<exists>v. map_of vs platform = Some v \<and> active v"
      by (auto simp: m split: option.splits if_splits)
  qed
  have C: "\<forall>platform v. map_of vs platform = Some v \<and> \<not> active v \<longrightarrow>
            platform \<notin> fst ` set (activeIdentifiers vs [])"
  proof (intro allI impI)
    fix platform v
    assume "map_of vs platform = Some v \<and> \<not> active v"
    then have "map_of (activeIdentifiers vs []) platform = None"
      by (simp add: m)
    then show "platform \<notin> fst ` set (activeIdentifiers vs [])"
      using k by blast
  qed
  from A B C show ?thesis by blast
qed

subsection \<open>The view of active verifications\<close>

text \<open>
  Claim C7. Whenever \<open>getUserVerifications\<close> returns a result for an address, the
  passport that \<open>getPassport\<close> returns for it has, for every platform key of the
  result, a verification with \<open>active = true\<close>; and a platform whose verification in
  that passport has \<open>active = false\<close> is not a key of the result. This holds in the
  multi-source and in the single-source SDK.
\<close>

theorem C7_active_only:
  "(getUserVerifications this address = (l, Inr (Some result)) \<longrightarrow>
      (\<exists>p. getPassport this address = (l, Inr (Some p)) \<and>
         (\<forall>platform \<in> fst ` set result.
            \<exists>v. map_of (verifications p) platform = Some v \<and> active v) \<and>
         (\<forall>platform v. map_of (verifications p) platform = Some v \<and> \<not> active v \<longrightarrow>
            platform \<notin> fst ` set result))) \<and>
   (getUserVerifications_single this1 address = (l1, Inr (Some result1)) \<longrightarrow>
      (\<exists>p. getPassport_single this1 address = (l1, Inr (Some p)) \<and>
         (\<forall>platform \<in> fst ` set result1.
            \<exists>v. map_of (verifications p) platform = Some v \<and> active v) \<and>
         (\<forall>platform v. map_of (verifications p) platform = Some v \<and> \<not> active v \<longrightarrow>
            platform \<notin> fst ` set result1)))"
proof (intro conjI impI)
  assume a: "getUserVerifications this address = (l, Inr (Some result))"
  then obtain p where p: "getPassport this address = (l, Inr (Some p))"
    and r: "result = activeIdentifiers (verifications p) []"
    by (auto simp: getUserVerifications_def bnd_Inr_iff ret_def split: option.splits)
  from userVerifications_view[OF getPassport_distinct[OF p]] p r
  show "\<exists>p. getPassport this address = (l, Inr (Some p)) \<and>
         (\<forall>platform \<in> fst ` set result.
            \<exists>v. map_of (verifications p) platform = Some v \<and> active v) \<and>
         (\<forall>platform v. map_of (verifications p) platform = Some v \<and> \<not> active v \<longrightarrow>
            platform \<notin> fst ` set result)"
    by blast
next
  assume a: "getUserVerifications_single this1 address = (l1, Inr (Some result1))"
  then obtain p where p: "getPassport_single this1 address = (l1, Inr (Some p))"
    and r: "result1 = activeIdentifiers (verifications p) []"
    by (auto simp: getUserVerifications_single_def bnd_Inr_iff ret_def split: option.splits)
  from userVerifications_view[OF getPassport_single_distinct[OF p]] p r
  show "\<exists>p. getPassport_single this1 address = (l1, Inr (Some p)) \<and>
         (\<forall>platform \<in> fst ` set result1.
            \<exists>v. map_of (verifications p) platform = Some v \<and> active v) \<and>
         (\<forall>platform v. map_of (verifications p) platform = Some v \<and> \<not> active v \<longrightarrow>
            platform \<notin> fst ` set result1)"
    by blast
qed


text \<open>
  Passport 9 has twitter active and github revoked: the view holds twitter only, in both
  SDKs.
\<close>

theorem C7_active_only_witness:
  "getUserVerifications (sdkOf registryMixed None) (Str ''0xD09'') =
     ([GetPassportByAddress (Str ''0xD09''), GetPassportData 9, GetVerifiedPlatforms 9,
       GetVerification 9 ''twitter'', GetVerification 9 ''github''],
      Inr (Some [(''twitter'', ''dog'')])) \<and>
   (\<exists>p. getPassport (sdkOf registryMixed None) (Str ''0xD09'') =
     ([GetPassportByAddress (Str ''0xD09''), GetPassportData 9, GetVerifiedPlatforms 9,
       GetVerification 9 ''twitter'', GetVerification 9 ''github''], Inr (Some p)) \<and>
      (\<exists>v. map_of (verifications p) ''twitter'' = Some v \<and> active v)) \<and>
   getUserVerifications_single (sdkSingleOf (singleView registryMixed)) (Str ''0xD09'') =
     ([GetPassportByAddress (Str ''0xD09''), GetPassportData 9, GetVerifiedPlatforms 9,
       GetVerification 9 ''twitter'', GetVerification 9 ''github''],
      Inr (Some [(''twitter'', ''dog'')])) \<and>
   (\<exists>p. getPassport_single (sdkSingleOf (singleView registryMixed)) (Str ''0xD09'') =
     ([GetPassportByAddress (Str ''0xD09''), GetPassportData 9, GetVerifiedPlatforms 9,
       GetVerification 9 ''twitter'', GetVerification 9 ''github''], Inr (Some p)) \<and>
      (\<exists>v. map_of (verifications p) ''twitter'' = Some v \<and> active v))"
proof -
  have e1: "getUserVerifications (sdkOf registryMixed None) (Str ''0xD09'') =
     ([GetPassportByAddress (Str ''0xD09''), GetPassportData 9, GetVerifiedPlatforms 9,
       GetVerification 9 ''twitter'', GetVerification 9 ''github''],
      Inr (Some [(''twitter'', ''dog'')]))"
    by (simp add: getUserVerifications_def getPassport_def getPassportId_def sdkOf_def
          registryMixed_def ensureConnected_def passlyContract_def await_def toNumber_def
          falsyId_def ret_def)
  have e2: "getUserVerifications_single (sdkSingleOf (singleView registryMixed)) (Str ''0xD09'') =
     ([GetPassportByAddress (Str ''0xD09''), GetPassportData 9, GetVerifiedPlatforms 9,
       GetVerification 9 ''twitter'', GetVerification 9 ''github''],
      Inr (Some [(''twitter'', ''dog'')]))"
    by (simp add: getUserVerifications_single_def getPassport_single_def
          getPassportId_single_def sdkSingleOf_def singleView_def registryMixed_def
          ensureConnected_single_def contractOf_def await_def toNumber_def falsyId_def ret_def)
  let ?calls = "[GetPassportByAddress (Str ''0xD09''), GetPassportData 9, GetVerifiedPlatforms 9,
       GetVerification 9 ''twitter'', GetVerification 9 ''github'']"
  from C7_active_only[of "sdkOf registryMixed None" "Str ''0xD09''" ?calls
      "[(''twitter'', ''dog'')]" "sdkSingleOf (singleView registryMixed)" ?calls
      "[(''twitter'', ''dog'')]"] e1 e2
  show ?thesis by auto
qed

subsection \<open>Partial success of the platform loop\<close>

text \<open>
  Claim C5, as the code has it: the property holds in the multi-source SDK. There the
  loop over any platform list never throws; it queries every platform of the list, and
  the entry of each platform in the resulting mapping is what that platform's own fetch
  yields: a platform whose fetch fails is absent, every other platform is present with
  its data. So \<open>getPassport\<close>, once the base record and the platform list have
  loaded, and \<open>getVerifications\<close>, once the platform list has loaded, return such a
  mapping whatever the detail fetches do.
\<close>

theorem C5_partial_success:
  assumes "isConnected this" and "passly (sdk_contracts this) = Some reg"
  shows "(\<exists>vs. gatherVerifications reg pid ps [] = (map (GetVerification pid) ps, Inr vs) \<and>
            (\<forall>k. map_of vs k = (if k \<in> set ps then loaded reg pid k else None))) \<and>
         (getPassportByAddress reg address = Inr n \<and> 0 < n \<and> n \<le> 9007199254740991 \<and>
          getPassportData reg (int n) = Inr (ow, cr, vc, cat, tp, rc, tr) \<and>
          cr \<le> 9007199254740991 \<and> vc \<le> 9007199254740991 \<and> tp \<le> 9007199254740991 \<and>
          tr \<le> 9007199254740991 \<and> getVerifiedPlatforms reg (int n) = Inr ps \<longrightarrow>
            (\<exists>p. getPassport this address =
                   (GetPassportByAddress address # GetPassportData (int n) #
                    GetVerifiedPlatforms (int n) # map (GetVerification (int n)) ps,
                    Inr (Some p)) \<and>
                 platforms p = ps \<and>
                 (\<forall>k. map_of (verifications p) k =
                        (if k \<in> set ps then loaded reg (int n) k else None)))) \<and>
         (getVerifiedPlatforms reg pid = Inr ps \<longrightarrow>
            (\<exists>vs. getVerifications isAddress this (Num pid) =
                    (GetVerifiedPlatforms pid # map (GetVerification pid) ps, Inr vs) \<and>
                  (\<forall>k. map_of vs k = (if k \<in> set ps then loaded reg pid k else None))))"
proof -
  have g: "\<And>i. \<exists>vs. gatherVerifications reg i ps [] = (map (GetVerification i) ps, Inr vs) \<and>
            (\<forall>k. map_of vs k = (if k \<in> set ps then loaded reg i k else None))"
  proof -
    fix i
    from gatherVerifications_spec[of reg i ps "[]"] obtain vs where
      "gatherVerifications reg i ps [] = (map (GetVerification i) ps, Inr vs)"
      "\<forall>k. map_of vs k = (if k \<in> set ps \<and> loaded reg i k \<noteq> None then loaded reg i k
                          else map_of [] k)"
      by blast
    then show "\<exists>vs. gatherVerifications reg i ps [] = (map (GetVerification i) ps, Inr vs) \<and>
            (\<forall>k. map_of vs k = (if k \<in> set ps then loaded reg i k else None))"
      by auto
  qed
  have p: "getPassportByAddress reg address = Inr n \<and> 0 < n \<and> n \<le> 9007199254740991 \<and>
          getPassportData reg (int n) = Inr (ow, cr, vc, cat, tp, rc, tr) \<and>
          cr \<le> 9007199254740991 \<and> vc \<le> 9007199254740991 \<and> tp \<le> 9007199254740991 \<and>
          tr \<le> 9007199254740991 \<and> getVerifiedPlatforms reg (int n) = Inr ps \<longrightarrow>
            (\<exists>p. getPassport this address =
                   (GetPassportByAddress address # GetPassportData (int n) #
                    GetVerifiedPlatforms (int n) # map (GetVerification (int n)) ps,
                    Inr (Some p)) \<and>
                 platforms p = ps \<and>
                 (\<forall>k. map_of (verifications p) k =
                        (if k \<in> set ps then loaded reg (int n) k else None)))"
  proof
    assume a: "getPassportByAddress reg address = Inr n \<and> 0 < n \<and> n \<le> 9007199254740991 \<and>
          getPassportData reg (int n) = Inr (ow, cr, vc, cat, tp, rc, tr) \<and>
          cr \<le> 9007199254740991 \<and> vc \<le> 9007199254740991 \<and> tp \<le> 9007199254740991 \<and>
          tr \<le> 9007199254740991 \<and> getVerifiedPlatforms reg (int n) = Inr ps"
    from g[of "int n"] obtain vs where
      vs: "gatherVerifications reg (int n) ps [] = (map (GetVerification (int n)) ps, Inr vs)"
      and m: "\<forall>k. map_of vs k = (if k \<in> set ps then loaded reg (int n) k else None)"
      by blast
    have "getPassportId this address = ([GetPassportByAddress address], Inr (Some (int n)))"
      using assms a by (simp add: getPassportId_Inr_iff)
    then have "getPassport this address =
                   (GetPassportByAddress address # GetPassportData (int n) #
                    GetVerifiedPlatforms (int n) # map (GetVerification (int n)) ps,
                    Inr (Some \<lparr>passport_id = int n, owner = ow, createdAt = int cr * 1000,
                      verificationCount = int vc, category = cat, platforms = ps,
                      verifications = vs, totalPoints = int tp, referralCode = rc,
                      totalReferrals = int tr\<rparr>))"
      using assms a vs
      by (simp add: getPassport_def ensureConnected_def passlyContract_def falsyId_def
            await_def toNumber_small ret_def)
    with m show "\<exists>p. getPassport this address =
                   (GetPassportByAddress address # GetPassportData (int n) #
                    GetVerifiedPlatforms (int n) # map (GetVerification (int n)) ps,
                    Inr (Some p)) \<and>
                 platforms p = ps \<and>
                 (\<forall>k. map_of (verifications p) k =
                        (if k \<in> set ps then loaded reg (int n) k else None))"
      by simp
  qed
  have v: "getVerifiedPlatforms reg pid = Inr ps \<longrightarrow>
            (\<exists>vs. getVerifications isAddress this (Num pid) =
                    (GetVerifiedPlatforms pid # map (GetVerification pid) ps, Inr vs) \<and>
                  (\<forall>k. map_of vs k = (if k \<in> set ps then loaded reg pid k else None)))"
  proof
    assume a: "getVerifiedPlatforms reg pid = Inr ps"
    from g[of pid] obtain vs where
      vs: "gatherVerifications reg pid ps [] = (map (GetVerification pid) ps, Inr vs)"
      and m: "\<forall>k. map_of vs k = (if k \<in> set ps then loaded reg pid k else None)"
      by blast
    have "getVerifications isAddress this (Num pid) =
            (GetVerifiedPlatforms pid # map (GetVerification pid) ps, Inr vs)"
      using assms a vs
      by (simp add: getVerifications_def ensureConnected_def resolvePassportId_def
            passlyContract_def await_def ret_def)
    with m show "\<exists>vs. getVerifications isAddress this (Num pid) =
                    (GetVerifiedPlatforms pid # map (GetVerification pid) ps, Inr vs) \<and>
                  (\<forall>k. map_of vs k = (if k \<in> set ps then loaded reg pid k else None))"
      by simp
  qed
  from g[of pid] p v show ?thesis by blast
qed

text \<open>
  Claim C5 as stated covers the single-source SDK as well. Its loop has no
  \<open>try\<close>/\<open>catch\<close>: with passport 5, whose discord verification fails to load,
  \<open>getPassport\<close> and \<open>getVerifications\<close> of the single-source SDK throw the
  error of that one fetch.
\<close>

theorem C5_counterexample:
  "getPassport_single (sdkSingleOf (singleView registryPartial)) (Str ''0xCa7'') =
     ([GetPassportByAddress (Str ''0xCa7''), GetPassportData 5, GetVerifiedPlatforms 5,
       GetVerification 5 ''twitter'', GetVerification 5 ''github'',
       GetVerification 5 ''discord''], Inl (Error ''timeout'')) \<and>
   getVerifications_single (sdkSingleOf (singleView registryPartial)) 5 =
     ([GetVerifiedPlatforms 5, GetVerification 5 ''twitter'', GetVerification 5 ''github'',
       GetVerification 5 ''discord''], Inl (Error ''timeout''))"
  by (simp add: getPassport_single_def getVerifications_single_def getPassportId_single_def
        sdkSingleOf_def singleView_def registryPartial_def ensureConnected_single_def
        contractOf_def await_def toNumber_def falsyId_def ret_def)


text \<open>
  The same passport in the multi-source SDK: discord is omitted, twitter and github are
  kept.
\<close>

theorem C5_partial_success_witness:
  "isConnected (sdkOf registryPartial None) \<and>
   passly (sdk_contracts (sdkOf registryPartial None)) = Some registryPartial \<and>
   getVerification registryPartial 5 ''discord'' = Inl (Error ''timeout'') \<and>
   (\<exists>p. getPassport (sdkOf registryPartial None) (Str ''0xCa7'') =
          ([GetPassportByAddress (Str ''0xCa7''), GetPassportData 5, GetVerifiedPlatforms 5,
            GetVerification 5 ''twitter'', GetVerification 5 ''github'',
            GetVerification 5 ''discord''], Inr (Some p)) \<and>
        platforms p = [''twitter'', ''github'', ''discord''] \<and>
        map_of (verifications p) ''discord'' = None \<and>
        map_of (verifications p) ''twitter'' =
          Some \<lparr>identifier_v = ''cat'', verifiedAt = 1700000100000, proofHash = ''0x0a'',
                active = True, pointsAwarded = Some True\<rparr> \<and>
        map_of (verifications p) ''github'' =
          Some \<lparr>identifier_v = ''cat-dev'', verifiedAt = 1700000200000, proofHash = ''0x0b'',
                active = False, pointsAwarded = Some False\<rparr>) \<and>
   (\<exists>vs. getVerifications (\<lambda>a. True) (sdkOf registryPartial None) (Num 5) =
          ([GetVerifiedPlatforms 5, GetVerification 5 ''twitter'', GetVerification 5 ''github'',
            GetVerification 5 ''discord''], Inr vs) \<and>
        map_of vs ''discord'' = None \<and>
        map_of vs ''twitter'' =
          Some \<lparr>identifier_v = ''cat'', verifiedAt = 1700000100000, proofHash = ''0x0a'',
                active = True, pointsAwarded = Some True\<rparr>)"
proof -
  have h1: "isConnected (sdkOf registryPartial None)"
    and h2: "passly (sdk_contracts (sdkOf registryPartial None)) = Some registryPartial"
    by (simp_all add: sdkOf_def)
  have pre: "getPassportByAddress registryPartial (Str ''0xCa7'') = Inr 5"
    "getPassportData registryPartial 5 = Inr (''0xCa7'', 1700000000, 3, ''creator'', 40, ''CAT'', 1)"
    "getVerifiedPlatforms registryPartial 5 = Inr [''twitter'', ''github'', ''discord'']"
    "getVerification registryPartial 5 ''discord'' = Inl (Error ''timeout'')"
    by (simp_all add: registryPartial_def)
  have ld: "loaded registryPartial 5 ''discord'' = None"
    "loaded registryPartial 5 ''twitter'' =
       Some \<lparr>identifier_v = ''cat'', verifiedAt = 1700000100000, proofHash = ''0x0a'',
             active = True, pointsAwarded = Some True\<rparr>"
    "loaded registryPartial 5 ''github'' =
       Some \<lparr>identifier_v = ''cat-dev'', verifiedAt = 1700000200000, proofHash = ''0x0b'',
             active = False, pointsAwarded = Some False\<rparr>"
    by (simp_all add: loaded_def registryPartial_def)
  note t = C5_partial_success[OF h1 h2, of 5 "[''twitter'', ''github'', ''discord'']"
      "Str ''0xCa7''" 5 "''0xCa7''" 1700000000 3 "''creator''" 40 "''CAT''" 1 "\<lambda>a. True"]
  from t pre obtain p where
    p: "getPassport (sdkOf registryPartial None) (Str ''0xCa7'') =
          ([GetPassportByAddress (Str ''0xCa7''), GetPassportData 5, GetVerifiedPlatforms 5,
            GetVerification 5 ''twitter'', GetVerification 5 ''github'',
            GetVerification 5 ''discord''], Inr (Some p))"
    "platforms p = [''twitter'', ''github'', ''discord'']"
    and pm: "\<forall>k. map_of (verifications p) k =
      (if k \<in> set [''twitter'', ''github'', ''discord''] then loaded registryPartial 5 k
       else None)"
    by auto
  from t pre obtain vs where
    v: "getVerifications (\<lambda>a. True) (sdkOf registryPartial None) (Num 5) =
          ([GetVerifiedPlatforms 5, GetVerification 5 ''twitter'', GetVerification 5 ''github'',
            GetVerification 5 ''discord''], Inr vs)"
    and vm: "\<forall>k. map_of vs k =
      (if k \<in> set [''twitter'', ''github'', ''discord''] then loaded registryPartial 5 k
       else None)"
    by auto
  have "map_of (verifications p) ''discord'' = None"
    "map_of (verifications p) ''twitter'' =
          Some \<lparr>identifier_v = ''cat'', verifiedAt = 1700000100000, proofHash = ''0x0a'',
                active = True, pointsAwarded = Some True\<rparr>"
    "map_of (verifications p) ''github'' =
          Some \<lparr>identifier_v = ''cat-dev'', verifiedAt = 1700000200000, proofHash = ''0x0b'',
                active = False, pointsAwarded = Some False\<rparr>"
    "map_of vs ''discord'' = None"
    "map_of vs ''twitter'' =
          Some \<lparr>identifier_v = ''cat'', verifiedAt = 1700000100000, proofHash = ''0x0a'',
                active = True, pointsAwarded = Some True\<rparr>"
    by (simp_all add: pm vm ld)
  with h1 h2 pre(4) p v show ?thesis by blast
qed

section \<open>Verification strength\<close>

text \<open>The filter of active platforms makes no remote call.\<close>

lemma fst_filterActive [simp]: "fst (filterActive vs ps) = []"
  by (induction ps) (auto simp: fst_bnd throw_def split: option.splits sum.splits)

lemma filterActive_total:
  "set ps \<subseteq> fst ` set vs \<Longrightarrow>
   filterActive vs ps =
     ret (filter (\<lambda>pl. \<exists>v. map_of vs pl = Some v \<and> active v) ps)"
proof (induction ps)
  case Nil
  show ?case by simp
next
  case (Cons p ps)
  from Cons.prems have "map_of vs p \<noteq> None"
    by (simp add: map_of_eq_None_iff)
  then obtain v where v: "map_of vs p = Some v" by blast
  from Cons.prems have "set ps \<subseteq> fst ` set vs" by simp
  from Cons.IH[OF this] v show ?case by simp
qed

lemma filterActive_missing:
  "\<not> set ps \<subseteq> fst ` set vs \<Longrightarrow>
   filterActive vs ps = throw (TypeError ''Cannot read properties of undefined'')"
proof (induction ps)
  case Nil
  then show ?case by simp
next
  case (Cons p ps)
  show ?case
  proof (cases "map_of vs p")
    case None
    then show ?thesis by simp
  next
    case (Some v)
    then have "p \<in> fst ` set vs"
      using map_of_eq_None_iff[of vs p] by auto
    with Cons.prems have "\<not> set ps \<subseteq> fst ` set vs" by simp
    from Cons.IH[OF this] Some show ?thesis by simp
  qed
qed

lemma list_ex_inter: "list_ex (\<lambda>x. x \<in> S) xs \<longleftrightarrow> set xs \<inter> S \<noteq> {}"
  by (auto simp: list_ex_iff)

lemma platformSets_distinct:
  "set socialPlatforms \<noteq> set devPlatforms" "set socialPlatforms \<noteq> set chainPlatforms"
  "set devPlatforms \<noteq> set chainPlatforms"
proof -
  have "''twitter'' \<in> set socialPlatforms" "''twitter'' \<notin> set devPlatforms"
    "''twitter'' \<notin> set chainPlatforms" "''github'' \<in> set devPlatforms"
    "''github'' \<notin> set chainPlatforms"
    by (simp_all add: socialPlatforms_def devPlatforms_def chainPlatforms_def)
  then show "set socialPlatforms \<noteq> set devPlatforms" "set socialPlatforms \<noteq> set chainPlatforms"
    "set devPlatforms \<noteq> set chainPlatforms"
    by auto
qed

lemma card_three:
  assumes "A \<noteq> B" "A \<noteq> C" "B \<noteq> C"
  shows "card {S \<in> {A, B, C}. P S} = length (filter (\<lambda>b. b) [P A, P B, P C])"
proof -
  have "{S \<in> {A, B, C}. P S} =
          (if P A then {A} else {}) \<union> (if P B then {B} else {}) \<union> (if P C then {C} else {})"
    by auto
  then show ?thesis using assms by (auto simp: card_insert_if)
qed

lemma card_platformSets:
  "card {S \<in> platformSets. set act \<inter> S \<noteq> {}} =
     length (filter (\<lambda>b. b)
       [list_ex (\<lambda>x. x \<in> set socialPlatforms) act,
        list_ex (\<lambda>x. x \<in> set devPlatforms) act,
        list_ex (\<lambda>x. x \<in> set chainPlatforms) act])"
proof -
  have ps: "platformSets = {set socialPlatforms, set devPlatforms, set chainPlatforms}"
    by (simp add: platformSets_def socialPlatforms_def devPlatforms_def chainPlatforms_def)
  show ?thesis
    unfolding ps list_ex_inter
    by (rule card_three) (rule platformSets_distinct)+
qed

lemma gradeOf_thresholds:
  "(gradeOf s = ''A'' \<longleftrightarrow> 80 \<le> s) \<and> (gradeOf s = ''B'' \<longleftrightarrow> 60 \<le> s \<and> s < 80) \<and>
   (gradeOf s = ''C'' \<longleftrightarrow> 40 \<le> s \<and> s < 60) \<and> (gradeOf s = ''D'' \<longleftrightarrow> 20 \<le> s \<and> s < 40) \<and>
   (gradeOf s = ''F'' \<longleftrightarrow> s < 20)"
  by (simp add: gradeOf_def)

text \<open>The score computation once the passport and its active platforms are known.\<close>

lemma strength_of_passport:
  assumes "getPassport this address = (l, Inr (Some p))"
    and "filterActive (verifications p) (platforms p) = ret act"
  shows "getVerificationStrength this address now =
     (l, Inr (Some
       (let score0 = 0;
             platformCount' = min (int (length act) * 15) 75;
             score1 = score0 + platformCount';
             ageInDays = (now - createdAt p) div (1000 * 60 * 60 * 24);
             ageBonus' = min (ageInDays div 30) 10;
             score2 = score1 + ageBonus';
             types = filter (\<lambda>b. b)
                       [list_ex (\<lambda>x. x \<in> set socialPlatforms) act,
                        list_ex (\<lambda>x. x \<in> set devPlatforms) act,
                        list_ex (\<lambda>x. x \<in> set chainPlatforms) act];
             diversityBonus' = (if length types \<ge> 2 then 10 else 0);
             score3 = (if length types \<ge> 2 then score2 + 10 else score2);
             pointsBonus' = (if totalPoints p > 0 then min (totalPoints p div 100) 5 else 0);
             score4 = (if totalPoints p > 0 then score3 + pointsBonus' else score3);
             totalScore' = min score4 100
         in \<lparr>score = totalScore', grade = gradeOf totalScore',
                       breakdown = \<lparr>platformCount = platformCount', ageBonus = ageBonus',
                                       diversityBonus = diversityBonus',
                                       totalScore = totalScore',
                                       pointsBonus = pointsBonus'\<rparr>,
                       activePlatforms = int (length act), accountAge = ageInDays\<rparr>)))"
  by (simp only: getVerificationStrength_def assms bnd_Inr bnd_ret option.case Let_def
        fst_ret snd_ret append_Nil2)


lemma getPassport_totalPoints:
  assumes "getPassport this a = (l, Inr (Some p))"
  shows "0 \<le> totalPoints p"
  using getPassport_inv[OF assms] by auto

lemma strength_components:
  assumes gp: "getPassport this address = (l, Inr (Some p))"
    and fa: "filterActive (verifications p) (platforms p) = ret act"
  shows "\<exists>r. getVerificationStrength this address now = (l, Inr (Some r)) \<and>
           activePlatforms r = int (length act) \<and>
           accountAge r = (now - createdAt p) div 86400000 \<and>
           platformCount (breakdown r) = min (int (length act) * 15) 75 \<and>
           ageBonus (breakdown r) = min (((now - createdAt p) div 86400000) div 30) 10 \<and>
           diversityBonus (breakdown r) =
             (if 2 \<le> card {S \<in> platformSets. set act \<inter> S \<noteq> {}} then 10 else 0) \<and>
           pointsBonus (breakdown r) =
             (if totalPoints p > 0 then min (totalPoints p div 100) 5 else 0) \<and>
           totalScore (breakdown r) = score r \<and>
           score r = min (platformCount (breakdown r) + ageBonus (breakdown r) +
                          diversityBonus (breakdown r) + pointsBonus (breakdown r)) 100 \<and>
           grade r = gradeOf (score r)"
proof -
  define age where "age = (now - createdAt p) div 86400000"
  define nt where "nt = length (filter (\<lambda>b. b)
                       [list_ex (\<lambda>x. x \<in> set socialPlatforms) act,
                        list_ex (\<lambda>x. x \<in> set devPlatforms) act,
                        list_ex (\<lambda>x. x \<in> set chainPlatforms) act])"
  define pc where "pc = min (int (length act) * 15) 75"
  define ab where "ab = min (age div 30) 10"
  define db where "db = (if nt \<ge> 2 then 10 else (0::int))"
  define pb where "pb = (if totalPoints p > 0 then min (totalPoints p div 100) 5 else 0)"
  define tot where "tot = min (if totalPoints p > 0
                               then (if nt \<ge> 2 then 0 + pc + ab + 10 else 0 + pc + ab) + pb
                               else (if nt \<ge> 2 then 0 + pc + ab + 10 else 0 + pc + ab)) 100"
  define r where
    "r = \<lparr>score = tot, grade = gradeOf tot,
          breakdown = \<lparr>platformCount = pc, ageBonus = ab, diversityBonus = db,
                        totalScore = tot, pointsBonus = pb\<rparr>,
          activePlatforms = int (length act), accountAge = age\<rparr>"
  have day: "(1000 * 60 * 60 * 24 :: int) = 86400000" by simp
  have eq: "getVerificationStrength this address now = (l, Inr (Some r))"
    unfolding strength_of_passport[OF gp fa] Let_def r_def tot_def pb_def db_def ab_def pc_def
      nt_def age_def day ..
  have cardnt: "card {S \<in> platformSets. set act \<inter> S \<noteq> {}} = nt"
    unfolding nt_def by (rule card_platformSets)
  have totv: "tot = min (pc + ab + db + pb) 100"
    by (cases "totalPoints p > 0"; cases "nt \<ge> 2") (simp_all add: tot_def db_def pb_def)
  have fields: "activePlatforms r = int (length act)" "accountAge r = age"
    "platformCount (breakdown r) = pc" "ageBonus (breakdown r) = ab"
    "diversityBonus (breakdown r) = db" "pointsBonus (breakdown r) = pb"
    "totalScore (breakdown r) = tot" "score r = tot" "grade r = gradeOf tot"
    by (simp_all add: r_def)
  show ?thesis
    apply (rule exI[of _ r])
    using eq totv
    by (simp only: fields cardnt age_def[symmetric] ab_def[symmetric] pc_def[symmetric]
          db_def[symmetric] pb_def[symmetric])
qed

lemma strength_inv:
  assumes a: "getVerificationStrength this address now = (l, Inr (Some r))"
  shows "\<exists>p act. getPassport this address = (l, Inr (Some p)) \<and>
           filterActive (verifications p) (platforms p) = ret act"
proof -
  obtain l1 res where gp: "getPassport this address = (l1, res)"
    by (cases "getPassport this address")
  show ?thesis
  proof (cases res)
    case (Inl e)
    have "getVerificationStrength this address now = (l1, Inl e)"
      by (simp only: getVerificationStrength_def gp Inl bnd_Inl)
    with a show ?thesis by simp
  next
    case (Inr x)
    note res = this
    show ?thesis
    proof (cases x)
      case None
      have "getVerificationStrength this address now = (l1, Inr None)"
        by (simp only: getVerificationStrength_def gp res None bnd_Inr option.case
              fst_ret snd_ret append_Nil2)
      with a show ?thesis by simp
    next
      case (Some p)
      note gp' = gp[unfolded res Some]
      obtain l3 res3 where f: "filterActive (verifications p) (platforms p) = (l3, res3)"
        by (cases "filterActive (verifications p) (platforms p)")
      have l3: "l3 = []"
        using fst_filterActive[of "verifications p" "platforms p"] f by simp
      show ?thesis
      proof (cases res3)
        case (Inl e)
        have "getVerificationStrength this address now = (l1, Inl e)"
          by (simp only: getVerificationStrength_def gp' bnd_Inr option.case f Inl l3 bnd_Inl
                fst_conv snd_conv append_Nil2)
        with a show ?thesis by simp
      next
        case (Inr act)
        with f l3 have fa: "filterActive (verifications p) (platforms p) = ret act"
          by (simp add: ret_def)
        from strength_components[OF gp' fa, of now] a have "l = l1" by auto
        with gp' fa show ?thesis by blast
      qed
    qed
  qed
qed

lemma getPassport_sdkB:
  "getPassport (sdkOf registryB rw) (Str ''0xB0b'') =
     ([GetPassportByAddress (Str ''0xB0b''), GetPassportData 7, GetVerifiedPlatforms 7,
       GetVerification 7 ''twitter'', GetVerification 7 ''discord'',
       GetVerification 7 ''telegram'', GetVerification 7 ''github'',
       GetVerification 7 ''gitlab'', GetVerification 7 ''solana''],
      Inr (Some \<lparr>passport_id = 7, owner = ''0xB0b'', createdAt = 1700000000000,
                 verificationCount = 6, category = ''developer'',
                 platforms = [''twitter'', ''discord'', ''telegram'', ''github'', ''gitlab'',
                              ''solana''],
                 verifications =
                   [(''twitter'', \<lparr>identifier_v = ''bob'', verifiedAt = 1700000000000,
                       proofHash = ''0x01'', active = True, pointsAwarded = Some True\<rparr>),
                    (''discord'', \<lparr>identifier_v = ''bob'', verifiedAt = 1700000000000,
                       proofHash = ''0x01'', active = True, pointsAwarded = Some True\<rparr>),
                    (''telegram'', \<lparr>identifier_v = ''bob'', verifiedAt = 1700000000000,
                       proofHash = ''0x01'', active = True, pointsAwarded = Some True\<rparr>),
                    (''github'', \<lparr>identifier_v = ''bob'', verifiedAt = 1700000000000,
                       proofHash = ''0x01'', active = True, pointsAwarded = Some True\<rparr>),
                    (''gitlab'', \<lparr>identifier_v = ''bob'', verifiedAt = 1700000000000,
                       proofHash = ''0x01'', active = True, pointsAwarded = Some True\<rparr>),
                    (''solana'', \<lparr>identifier_v = ''bob'', verifiedAt = 1700000000000,
                       proofHash = ''0x01'', active = True, pointsAwarded = Some True\<rparr>)],
                 totalPoints = 250, referralCode = ''BOB'', totalReferrals = 0\<rparr>))"
  by (simp del: bnd_Inr bnd_Inl try_catch_Inl try_catch_Inr bnd_ret bnd_throw try_catch_ret
          try_catch_throw
        add: bnd_def try_catch_def throw_def getPassport_def getPassportId_def sdkOf_def
          registryB_def ensureConnected_def passlyContract_def await_def toNumber_def
          falsyId_def ret_def)

lemma strength_sdkB:
  "getVerificationStrength (sdkOf registryB rw) (Str ''0xB0b'') nowB =
     ([GetPassportByAddress (Str ''0xB0b''), GetPassportData 7, GetVerifiedPlatforms 7,
       GetVerification 7 ''twitter'', GetVerification 7 ''discord'',
       GetVerification 7 ''telegram'', GetVerification 7 ''github'',
       GetVerification 7 ''gitlab'', GetVerification 7 ''solana''],
      Inr (Some \<lparr>score = 97, grade = ''A'',
                 breakdown = \<lparr>platformCount = 75, ageBonus = 10, diversityBonus = 10,
                               totalScore = 97, pointsBonus = 2\<rparr>,
                 activePlatforms = 6, accountAge = 400\<rparr>))"
proof -
  let ?p = "\<lparr>passport_id = 7, owner = ''0xB0b'', createdAt = 1700000000000,
                 verificationCount = 6, category = ''developer'',
                 platforms = [''twitter'', ''discord'', ''telegram'', ''github'', ''gitlab'',
                              ''solana''],
                 verifications =
                   [(''twitter'', \<lparr>identifier_v = ''bob'', verifiedAt = 1700000000000,
                       proofHash = ''0x01'', active = True, pointsAwarded = Some True\<rparr>),
                    (''discord'', \<lparr>identifier_v = ''bob'', verifiedAt = 1700000000000,
                       proofHash = ''0x01'', active = True, pointsAwarded = Some True\<rparr>),
                    (''telegram'', \<lparr>identifier_v = ''bob'', verifiedAt = 1700000000000,
                       proofHash = ''0x01'', active = True, pointsAwarded = Some True\<rparr>),
                    (''github'', \<lparr>identifier_v = ''bob'', verifiedAt = 1700000000000,
                       proofHash = ''0x01'', active = True, pointsAwarded = Some True\<rparr>),
                    (''gitlab'', \<lparr>identifier_v = ''bob'', verifiedAt = 1700000000000,
                       proofHash = ''0x01'', active = True, pointsAwarded = Some True\<rparr>),
                    (''solana'', \<lparr>identifier_v = ''bob'', verifiedAt = 1700000000000,
                       proofHash = ''0x01'', active = True, pointsAwarded = Some True\<rparr>)],
                 totalPoints = 250, referralCode = ''BOB'', totalReferrals = 0\<rparr>"
  have fa: "filterActive (verifications ?p) (platforms ?p) =
              ret [''twitter'', ''discord'', ''telegram'', ''github'', ''gitlab'', ''solana'']"
    by simp
  show ?thesis
    unfolding strength_of_passport[OF getPassport_sdkB fa]
    by (simp add: Let_def nowB_def socialPlatforms_def devPlatforms_def chainPlatforms_def
          gradeOf_def)
qed

subsection \<open>The breakdown of the multi-source score\<close>

text \<open>
  Let \<open>getPassport\<close> return a passport in which every listed platform has
  a verification entry. Then \<open>getVerificationStrength\<close> returns a result, with the
  same remote calls, and with \<open>act\<close> the listed platforms whose verification is
  active and \<open>age\<close> the whole days from \<open>createdAt\<close> to the evaluation time:
  \<open>platformCount = min (15 * |act|) 75\<close>, \<open>ageBonus = min (floor (age / 30)) 10\<close>,
  \<open>diversityBonus\<close> is 10 if and only if \<open>act\<close> meets at least two of the three
  platform sets (and is 0 otherwise), \<open>pointsBonus = min (floor (totalPoints / 100)) 5\<close>,
  and the score is the minimum of the sum of the four and 100. In particular, with 6
  active platforms that meet at least two sets, an age of 400 days and 250 points, the
  components are 75, 10, 10 and 2, the score is 97 and the grade is A.
\<close>

lemma strength_breakdown_complete:
  assumes gp: "getPassport this address = (l, Inr (Some p))"
    and inv: "set (platforms p) \<subseteq> fst ` set (verifications p)"
  shows "\<exists>r act age.
           getVerificationStrength this address now = (l, Inr (Some r)) \<and>
           act = filter (\<lambda>pl. \<exists>v. map_of (verifications p) pl = Some v \<and> active v)
                   (platforms p) \<and>
           age = (now - createdAt p) div 86400000 \<and>
           activePlatforms r = int (length act) \<and> accountAge r = age \<and>
           platformCount (breakdown r) = min (15 * int (length act)) 75 \<and>
           ageBonus (breakdown r) = min (age div 30) 10 \<and>
           (diversityBonus (breakdown r) = 10 \<longleftrightarrow>
              2 \<le> card {S \<in> platformSets. set act \<inter> S \<noteq> {}}) \<and>
           diversityBonus (breakdown r) \<in> {0, 10} \<and>
           pointsBonus (breakdown r) = min (totalPoints p div 100) 5 \<and>
           totalScore (breakdown r) = score r \<and>
           score r = min (platformCount (breakdown r) + ageBonus (breakdown r) +
                          diversityBonus (breakdown r) + pointsBonus (breakdown r)) 100 \<and>
           (length act = 6 \<and> 2 \<le> card {S \<in> platformSets. set act \<inter> S \<noteq> {}} \<and>
            age = 400 \<and> totalPoints p = 250 \<longrightarrow>
              platformCount (breakdown r) = 75 \<and> ageBonus (breakdown r) = 10 \<and>
              diversityBonus (breakdown r) = 10 \<and> pointsBonus (breakdown r) = 2 \<and>
              score r = 97 \<and> grade r = ''A'')"
proof -
  define act where
    "act = filter (\<lambda>pl. \<exists>v. map_of (verifications p) pl = Some v \<and> active v) (platforms p)"
  define age where "age = (now - createdAt p) div 86400000"
  define nc where "nc = card {S \<in> platformSets. set act \<inter> S \<noteq> {}}"
  have fa: "filterActive (verifications p) (platforms p) = ret act"
    unfolding act_def by (rule filterActive_total[OF inv])
  from strength_components[OF gp fa, of now, folded age_def nc_def] obtain r where
    eq: "getVerificationStrength this address now = (l, Inr (Some r))"
    and ap: "activePlatforms r = int (length act)" and aa: "accountAge r = age"
    and pc: "platformCount (breakdown r) = min (int (length act) * 15) 75"
    and ab: "ageBonus (breakdown r) = min (age div 30) 10"
    and db: "diversityBonus (breakdown r) = (if 2 \<le> nc then 10 else 0)"
    and pb: "pointsBonus (breakdown r) =
               (if totalPoints p > 0 then min (totalPoints p div 100) 5 else 0)"
    and ts: "totalScore (breakdown r) = score r"
    and sc: "score r = min (platformCount (breakdown r) + ageBonus (breakdown r) +
                          diversityBonus (breakdown r) + pointsBonus (breakdown r)) 100"
    and gr: "grade r = gradeOf (score r)"
    by blast
  have tp: "0 \<le> totalPoints p" by (rule getPassport_totalPoints[OF gp])
  have pbv: "pointsBonus (breakdown r) = min (totalPoints p div 100) 5"
    using tp by (cases "totalPoints p = 0") (simp_all add: pb)
  have pcv: "platformCount (breakdown r) = min (15 * int (length act)) 75"
    by (simp add: pc mult.commute)
  have dbv: "(diversityBonus (breakdown r) = 10 \<longleftrightarrow> 2 \<le> nc) \<and>
             diversityBonus (breakdown r) \<in> {0, 10}"
    by (simp add: db)
  have scen: "length act = 6 \<and> 2 \<le> nc \<and> age = 400 \<and> totalPoints p = 250 \<longrightarrow>
              platformCount (breakdown r) = 75 \<and> ageBonus (breakdown r) = 10 \<and>
              diversityBonus (breakdown r) = 10 \<and> pointsBonus (breakdown r) = 2 \<and>
              score r = 97 \<and> grade r = ''A''"
    by (simp add: sc gr pc ab db pb gradeOf_def)
  show ?thesis
    apply (rule exI[of _ r], rule exI[of _ act], rule exI[of _ age])
    using eq ap aa pcv ab dbv pbv ts sc scen
    by (simp only: act_def[symmetric] age_def[symmetric] nc_def[symmetric] simp_thms)
qed

text \<open>Scenario B, evaluated: the session \<open>sdkB\<close> at \<open>nowB\<close> gives 75, 10, 10, 2, 97 and A.\<close>

lemma strength_breakdown_scenarioB:
  "\<exists>r. getVerificationStrength sdkB (Str ''0xB0b'') nowB =
         ([GetPassportByAddress (Str ''0xB0b''), GetPassportData 7, GetVerifiedPlatforms 7,
           GetVerification 7 ''twitter'', GetVerification 7 ''discord'',
           GetVerification 7 ''telegram'', GetVerification 7 ''github'',
           GetVerification 7 ''gitlab'', GetVerification 7 ''solana''], Inr (Some r)) \<and>
       activePlatforms r = 6 \<and> accountAge r = 400 \<and>
       platformCount (breakdown r) = 75 \<and> ageBonus (breakdown r) = 10 \<and>
       diversityBonus (breakdown r) = 10 \<and> pointsBonus (breakdown r) = 2 \<and>
       score r = 97 \<and> grade r = ''A''"
proof -
  let ?p = "\<lparr>passport_id = 7, owner = ''0xB0b'', createdAt = 1700000000000,
                 verificationCount = 6, category = ''developer'',
                 platforms = [''twitter'', ''discord'', ''telegram'', ''github'', ''gitlab'',
                              ''solana''],
                 verifications =
                   [(''twitter'', \<lparr>identifier_v = ''bob'', verifiedAt = 1700000000000,
                       proofHash = ''0x01'', active = True, pointsAwarded = Some True\<rparr>),
                    (''discord'', \<lparr>identifier_v = ''bob'', verifiedAt = 1700000000000,
                       proofHash = ''0x01'', active = True, pointsAwarded = Some True\<rparr>),
                    (''telegram'', \<lparr>identifier_v = ''bob'', verifiedAt = 1700000000000,
                       proofHash = ''0x01'', active = True, pointsAwarded = Some True\<rparr>),
                    (''github'', \<lparr>identifier_v = ''bob'', verifiedAt = 1700000000000,
                       proofHash = ''0x01'', active = True, pointsAwarded = Some True\<rparr>),
                    (''gitlab'', \<lparr>identifier_v = ''bob'', verifiedAt = 1700000000000,
                       proofHash = ''0x01'', active = True, pointsAwarded = Some True\<rparr>),
                    (''solana'', \<lparr>identifier_v = ''bob'', verifiedAt = 1700000000000,
                       proofHash = ''0x01'', active = True, pointsAwarded = Some True\<rparr>)],
                 totalPoints = 250, referralCode = ''BOB'', totalReferrals = 0\<rparr>"
  let ?six = "[''twitter'', ''discord'', ''telegram'', ''github'', ''gitlab'', ''solana'']"
  have gp: "getPassport sdkB (Str ''0xB0b'') =
         ([GetPassportByAddress (Str ''0xB0b''), GetPassportData 7, GetVerifiedPlatforms 7,
           GetVerification 7 ''twitter'', GetVerification 7 ''discord'',
           GetVerification 7 ''telegram'', GetVerification 7 ''github'',
           GetVerification 7 ''gitlab'', GetVerification 7 ''solana''], Inr (Some ?p))"
    unfolding sdkB_def by (rule getPassport_sdkB)
  have inv: "set (platforms ?p) \<subseteq> fst ` set (verifications ?p)"
    by simp
  have act: "filter (\<lambda>pl. \<exists>v. map_of (verifications ?p) pl = Some v \<and> active v) (platforms ?p)
               = ?six"
    by simp
  have age: "(nowB - createdAt ?p) div 86400000 = 400"
    by (simp add: nowB_def)
  have crd: "2 \<le> card {S \<in> platformSets. set ?six \<inter> S \<noteq> {}}"
    unfolding card_platformSets
    by (simp add: socialPlatforms_def devPlatforms_def chainPlatforms_def)
  from strength_breakdown_complete[OF gp inv, of nowB, unfolded act age] crd
  show ?thesis by auto
qed

text \<open>
  When a listed platform has no verification entry (its detail failed to load), the
  filter of active platforms reads \<open>active\<close> of \<open>undefined\<close>: the function throws
  a TypeError and computes no breakdown.
\<close>

lemma strength_missing_entry:
  assumes gp: "getPassport this address = (l, Inr (Some p))"
    and inv: "\<not> set (platforms p) \<subseteq> fst ` set (verifications p)"
  shows "getVerificationStrength this address now =
           (l, Inl (TypeError ''Cannot read properties of undefined''))"
  by (simp only: getVerificationStrength_def gp bnd_Inr option.case
        filterActive_missing[OF inv] bnd_throw fst_throw snd_throw append_Nil2)

text \<open>
  Claim C1 says that for every passport \<open>getVerificationStrength\<close> computes the
  breakdown by the formulas above. It does so for every passport whose listed platforms
  all have an entry, but not for every passport that \<open>getPassport\<close> returns.
  For the address \<open>0xCa7\<close> the detail fetch of discord fails; \<open>getPassport\<close>
  skips it, as its loop is written to do, and returns passport 5 with discord in
  \<open>platforms\<close> and without an entry in \<open>verifications\<close>. On that passport
  \<open>getVerificationStrength\<close> reads \<open>passport.verifications[platform].active\<close>
  for discord and throws a TypeError, where the claim gives a breakdown (two listed
  platforms load, one of them active).
\<close>

theorem C1_partial_passport_throws:
  "getPassport (sdkOf registryPartial None) (Str ''0xCa7'') =
     ([GetPassportByAddress (Str ''0xCa7''), GetPassportData 5, GetVerifiedPlatforms 5,
       GetVerification 5 ''twitter'', GetVerification 5 ''github'',
       GetVerification 5 ''discord''],
      Inr (Some \<lparr>passport_id = 5, owner = ''0xCa7'', createdAt = 1700000000000,
                 verificationCount = 3, category = ''creator'',
                 platforms = [''twitter'', ''github'', ''discord''],
                 verifications =
                   [(''twitter'', \<lparr>identifier_v = ''cat'', verifiedAt = 1700000100000,
                       proofHash = ''0x0a'', active = True, pointsAwarded = Some True\<rparr>),
                    (''github'', \<lparr>identifier_v = ''cat-dev'', verifiedAt = 1700000200000,
                       proofHash = ''0x0b'', active = False, pointsAwarded = Some False\<rparr>)],
                 totalPoints = 40, referralCode = ''CAT'', totalReferrals = 1\<rparr>)) \<and>
   getVerificationStrength (sdkOf registryPartial None) (Str ''0xCa7'') nowB =
     ([GetPassportByAddress (Str ''0xCa7''), GetPassportData 5, GetVerifiedPlatforms 5,
       GetVerification 5 ''twitter'', GetVerification 5 ''github'',
       GetVerification 5 ''discord''],
      Inl (TypeError ''Cannot read properties of undefined''))"
proof -
  let ?p = "\<lparr>passport_id = 5, owner = ''0xCa7'', createdAt = 1700000000000,
                 verificationCount = 3, category = ''creator'',
                 platforms = [''twitter'', ''github'', ''discord''],
                 verifications =
                   [(''twitter'', \<lparr>identifier_v = ''cat'', verifiedAt = 1700000100000,
                       proofHash = ''0x0a'', active = True, pointsAwarded = Some True\<rparr>),
                    (''github'', \<lparr>identifier_v = ''cat-dev'', verifiedAt = 1700000200000,
                       proofHash = ''0x0b'', active = False, pointsAwarded = Some False\<rparr>)],
                 totalPoints = 40, referralCode = ''CAT'', totalReferrals = 1\<rparr>"
  have gp: "getPassport (sdkOf registryPartial None) (Str ''0xCa7'') =
     ([GetPassportByAddress (Str ''0xCa7''), GetPassportData 5, GetVerifiedPlatforms 5,
       GetVerification 5 ''twitter'', GetVerification 5 ''github'',
       GetVerification 5 ''discord''], Inr (Some ?p))"
    by (simp del: bnd_Inr bnd_Inl try_catch_Inl try_catch_Inr bnd_ret bnd_throw try_catch_ret
          try_catch_throw
        add: bnd_def try_catch_def throw_def getPassport_def getPassportId_def sdkOf_def
          registryPartial_def ensureConnected_def passlyContract_def await_def toNumber_def
          falsyId_def ret_def)
  have inv: "\<not> set (platforms ?p) \<subseteq> fst ` set (verifications ?p)"
    by simp
  have fa: "filterActive (verifications ?p) (platforms ?p) =
              throw (TypeError ''Cannot read properties of undefined'')"
    by (rule filterActive_missing[OF inv])
  have "getVerificationStrength (sdkOf registryPartial None) (Str ''0xCa7'') nowB =
     ([GetPassportByAddress (Str ''0xCa7''), GetPassportData 5, GetVerifiedPlatforms 5,
       GetVerification 5 ''twitter'', GetVerification 5 ''github'',
       GetVerification 5 ''discord''],
      Inl (TypeError ''Cannot read properties of undefined''))"
    by (simp only: getVerificationStrength_def gp bnd_Inr option.case fa bnd_throw fst_throw
          snd_throw append_Nil2)
  with gp show ?thesis by simp
qed

subsection \<open>The points bonus and the rewards contract\<close>

text \<open>\<open>getPassport\<close> never reads the rewards binding.\<close>

lemma getPassport_rewards_indep:
  "getPassport (this\<lparr>sdk_contracts := (sdk_contracts this)\<lparr>rewards := rw\<rparr>\<rparr>) address =
   getPassport this address"
proof -
  let ?this' = "this\<lparr>sdk_contracts := (sdk_contracts this)\<lparr>rewards := rw\<rparr>\<rparr>"
  have e1: "ensureConnected ?this' = ensureConnected this"
    by (simp add: ensureConnected_def)
  have e2: "passlyContract ?this' = passlyContract this"
    by (simp add: passlyContract_def)
  have e3: "getPassportId ?this' address = getPassportId this address"
    unfolding getPassportId_def e1 e2 ..
  show ?thesis
    unfolding getPassport_def e1 e2 e3 ..
qed

text \<open>
  Claim C3, as the code has it. \<open>getVerificationStrength\<close> gives the same outcome
  whether the rewards contract is bound or not: the points bonus is computed from the
  \<open>totalPoints\<close> field of the base record that the identity registry returns,
  \<open>min (floor (totalPoints / 100)) 5\<close>, and it is 0 exactly when that field is
  below 100.
\<close>

theorem C3_points_from_registry:
  "getVerificationStrength (this\<lparr>sdk_contracts := (sdk_contracts this)\<lparr>rewards := rw\<rparr>\<rparr>)
     address now = getVerificationStrength this address now \<and>
   (getVerificationStrength this address now = (l, Inr (Some r)) \<longrightarrow>
      (\<exists>p. getPassport this address = (l, Inr (Some p)) \<and>
           pointsBonus (breakdown r) = min (totalPoints p div 100) 5 \<and>
           (pointsBonus (breakdown r) = 0 \<longleftrightarrow> totalPoints p < 100)))"
proof (intro conjI impI)
  show "getVerificationStrength (this\<lparr>sdk_contracts := (sdk_contracts this)\<lparr>rewards := rw\<rparr>\<rparr>)
     address now = getVerificationStrength this address now"
    by (simp only: getVerificationStrength_def getPassport_rewards_indep)
next
  assume a: "getVerificationStrength this address now = (l, Inr (Some r))"
  from strength_inv[OF a] obtain p act where gp: "getPassport this address = (l, Inr (Some p))"
    and fa: "filterActive (verifications p) (platforms p) = ret act"
    by blast
  from strength_components[OF gp fa, of now] a
  have pb: "pointsBonus (breakdown r) =
              (if totalPoints p > 0 then min (totalPoints p div 100) 5 else 0)"
    by auto
  have tp: "0 \<le> totalPoints p" by (rule getPassport_totalPoints[OF gp])
  have pbv: "pointsBonus (breakdown r) = min (totalPoints p div 100) 5"
    using tp by (cases "totalPoints p = 0") (simp_all add: pb)
  have "min (totalPoints p div 100) 5 = 0 \<longleftrightarrow> totalPoints p < 100"
    using tp by (auto simp: min_def zdiv_eq_0_iff)
  with gp pbv
  show "\<exists>p. getPassport this address = (l, Inr (Some p)) \<and>
           pointsBonus (breakdown r) = min (totalPoints p div 100) 5 \<and>
           (pointsBonus (breakdown r) = 0 \<longleftrightarrow> totalPoints p < 100)"
    by auto
qed

text \<open>
  Claim C3 as stated gives scenario C (scenario B with the rewards contract unbound) a
  points bonus of 0 and a score of 95. The code gives it a points bonus of 2 and a
  score of 97.
\<close>

theorem C3_counterexample:
  "rewards (sdk_contracts sdkC) = None \<and>
   getVerificationStrength sdkC (Str ''0xB0b'') nowB =
     ([GetPassportByAddress (Str ''0xB0b''), GetPassportData 7, GetVerifiedPlatforms 7,
       GetVerification 7 ''twitter'', GetVerification 7 ''discord'',
       GetVerification 7 ''telegram'', GetVerification 7 ''github'',
       GetVerification 7 ''gitlab'', GetVerification 7 ''solana''],
      Inr (Some \<lparr>score = 97, grade = ''A'',
                 breakdown = \<lparr>platformCount = 75, ageBonus = 10, diversityBonus = 10,
                               totalScore = 97, pointsBonus = 2\<rparr>,
                 activePlatforms = 6, accountAge = 400\<rparr>))"
  unfolding sdkC_def by (simp add: strength_sdkB) (simp add: sdkOf_def)

text \<open>Scenario C: binding the rewards contract changes nothing, and 250 points give 2.\<close>

theorem C3_points_from_registry_witness:
  "getVerificationStrength (sdkC\<lparr>sdk_contracts := (sdk_contracts sdkC)\<lparr>rewards := Some rewardsB\<rparr>\<rparr>)
     (Str ''0xB0b'') nowB = getVerificationStrength sdkC (Str ''0xB0b'') nowB \<and>
   rewards (sdk_contracts sdkC) = None \<and>
   (\<exists>p. getPassport sdkC (Str ''0xB0b'') =
          ([GetPassportByAddress (Str ''0xB0b''), GetPassportData 7, GetVerifiedPlatforms 7,
            GetVerification 7 ''twitter'', GetVerification 7 ''discord'',
            GetVerification 7 ''telegram'', GetVerification 7 ''github'',
            GetVerification 7 ''gitlab'', GetVerification 7 ''solana''], Inr (Some p)) \<and>
        min (totalPoints p div 100) 5 = 2 \<and> \<not> totalPoints p < 100)"
proof -
  let ?calls = "[GetPassportByAddress (Str ''0xB0b''), GetPassportData 7, GetVerifiedPlatforms 7,
            GetVerification 7 ''twitter'', GetVerification 7 ''discord'',
            GetVerification 7 ''telegram'', GetVerification 7 ''github'',
            GetVerification 7 ''gitlab'', GetVerification 7 ''solana'']"
  let ?r = "\<lparr>score = 97, grade = ''A'',
                 breakdown = \<lparr>platformCount = 75, ageBonus = 10, diversityBonus = 10,
                               totalScore = 97, pointsBonus = 2\<rparr>,
                 activePlatforms = 6, accountAge = 400\<rparr>"
  have e: "getVerificationStrength sdkC (Str ''0xB0b'') nowB = (?calls, Inr (Some ?r))"
    unfolding sdkC_def by (rule strength_sdkB)
  have n: "rewards (sdk_contracts sdkC) = None"
    by (simp add: sdkC_def sdkOf_def)
  from C3_points_from_registry[where this = sdkC and rw = "Some rewardsB"
      and address = "Str ''0xB0b''" and now = nowB and l = ?calls and r = ?r] e n
  show ?thesis by auto
qed

subsection \<open>The range of the score\<close>

text \<open>
  The score of the multi-source SDK never exceeds 100, and the grade follows the fixed
  thresholds. It is at least 0 when the account age in days is not negative, that is,
  when \<open>createdAt\<close> is not later than the evaluation time.
\<close>

lemma strength_score_bounds:
  assumes a: "getVerificationStrength this address now = (l, Inr (Some r))"
  shows "score r \<le> 100 \<and> (0 \<le> accountAge r \<longrightarrow> 0 \<le> score r) \<and>
         grade r = gradeOf (score r)"
proof -
  from strength_inv[OF a] obtain p act where gp: "getPassport this address = (l, Inr (Some p))"
    and fa: "filterActive (verifications p) (platforms p) = ret act"
    by blast
  define age where "age = (now - createdAt p) div 86400000"
  from strength_components[OF gp fa, of now, folded age_def] a
  have aa: "accountAge r = age"
    and pc: "platformCount (breakdown r) = min (int (length act) * 15) 75"
    and ab: "ageBonus (breakdown r) = min (age div 30) 10"
    and db: "diversityBonus (breakdown r) =
               (if 2 \<le> card {S \<in> platformSets. set act \<inter> S \<noteq> {}} then 10 else 0)"
    and pb: "pointsBonus (breakdown r) =
               (if totalPoints p > 0 then min (totalPoints p div 100) 5 else 0)"
    and sc: "score r = min (platformCount (breakdown r) + ageBonus (breakdown r) +
                          diversityBonus (breakdown r) + pointsBonus (breakdown r)) 100"
    and gr: "grade r = gradeOf (score r)"
    by auto
  have p1: "0 \<le> platformCount (breakdown r)" by (simp add: pc)
  have p2: "0 \<le> age \<longrightarrow> 0 \<le> ageBonus (breakdown r)"
    by (simp add: ab pos_imp_zdiv_nonneg_iff)
  have p3: "0 \<le> diversityBonus (breakdown r)" by (simp add: db)
  have p4: "0 \<le> pointsBonus (breakdown r)"
    by (simp add: pb pos_imp_zdiv_nonneg_iff)
  from p1 p2 p3 p4 have "0 \<le> age \<longrightarrow> 0 \<le> score r"
    unfolding sc by simp
  moreover have "score r \<le> 100" unfolding sc by simp
  ultimately show ?thesis using gr aa by simp
qed

text \<open>
  The same holds for the score of the single-source SDK, given that the floor of the
  quotient by 24.33 is not negative for a non-negative number of days.
\<close>

lemma strength_single_score_bounds:
  assumes a: "getVerificationStrength_single floorDiv2433 this address now =
                (l, Inr (Some r))"
    and fl: "\<And>d. 0 \<le> d \<Longrightarrow> 0 \<le> floorDiv2433 d"
  shows "score r \<le> 100 \<and> (0 \<le> accountAge r \<longrightarrow> 0 \<le> score r) \<and>
         grade r = gradeOf (score r)"
proof -
  obtain l1 res where gp: "getPassport_single this address = (l1, res)"
    by (cases "getPassport_single this address")
  show ?thesis
  proof (cases res)
    case (Inl e)
    have "getVerificationStrength_single floorDiv2433 this address now = (l1, Inl e)"
      by (simp only: getVerificationStrength_single_def gp Inl bnd_Inl)
    with a show ?thesis by simp
  next
    case (Inr x)
    note res = this
    show ?thesis
    proof (cases x)
      case None
      have "getVerificationStrength_single floorDiv2433 this address now = (l1, Inr None)"
        by (simp only: getVerificationStrength_single_def gp res None bnd_Inr option.case
              fst_ret snd_ret append_Nil2)
      with a show ?thesis by simp
    next
      case (Some p)
      note gp' = gp[unfolded res Some]
      obtain l3 res3 where f: "filterActive (verifications p) (platforms p) = (l3, res3)"
        by (cases "filterActive (verifications p) (platforms p)")
      show ?thesis
      proof (cases res3)
        case (Inl e)
        have "getVerificationStrength_single floorDiv2433 this address now = (l1 @ l3, Inl e)"
          by (simp only: getVerificationStrength_single_def gp' bnd_Inr option.case f Inl
                bnd_Inl fst_conv snd_conv)
        with a show ?thesis by simp
      next
        case (Inr act)
        note fa = f[unfolded Inr]
        obtain l4 res4 where g: "getEarliestVerification this address now = (l4, res4)"
          by (cases "getEarliestVerification this address now")
        show ?thesis
        proof (cases res4)
          case (Inl e)
          have "getVerificationStrength_single floorDiv2433 this address now = (l1 @ l3 @ l4, Inl e)"
            by (simp only: getVerificationStrength_single_def gp' bnd_Inr option.case fa
                  Let_def g Inl bnd_Inl fst_conv snd_conv)
          with a show ?thesis by simp
        next
          case (Inr e)
          define pc where "pc = min (int (length act) * 20) 80"
          define ab where "ab = (case e of Some e' \<Rightarrow> min (floorDiv2433 (ageInDays e')) 15
                                  | None \<Rightarrow> (0::int))"
          define nd where "nd = (list_ex (\<lambda>x. x \<in> set socialPlatforms) act \<and>
                                 list_ex (\<lambda>x. x \<in> set devPlatforms) act)"
          define db where "db = (if nd then 5 else (0::int))"
          define tot where "tot = min (if nd then 0 + pc + ab + 5 else 0 + pc + ab) 100"
          define age where "age = (case e of Some e' \<Rightarrow> ageInDays e' | None \<Rightarrow> (0::int))"
          define r' where
            "r' = \<lparr>score = tot, grade = gradeOf tot,
                   breakdown = \<lparr>platformCount = pc, ageBonus = ab, diversityBonus = db,
                                 totalScore = tot\<rparr>,
                   activePlatforms = int (length act), accountAge = age\<rparr>"
          have "getVerificationStrength_single floorDiv2433 this address now =
                  (l1 @ l3 @ l4, Inr (Some r'))"
            by (simp only: getVerificationStrength_single_def gp' bnd_Inr option.case fa
                  Let_def g Inr fst_conv snd_conv fst_ret snd_ret append_Nil2
                  r'_def tot_def db_def nd_def ab_def pc_def age_def)
          with a have r: "r = r'" by simp
          have p2: "0 \<le> age \<longrightarrow> 0 \<le> ab"
            by (cases e) (simp_all add: age_def ab_def fl)
          have p1: "0 \<le> pc" by (simp add: pc_def)
          have "tot \<le> 100" by (simp add: tot_def)
          moreover have "0 \<le> age \<longrightarrow> 0 \<le> tot"
            using p1 p2 by (simp add: tot_def)
          ultimately show ?thesis by (simp add: r r'_def)
        qed
      qed
    qed
  qed
qed

text \<open>
  Claim C6 says that the score is always between 0 and 100, as the documentation of
  \<open>getVerificationStrength\<close> does. The score is capped at 100 but has no floor: for a
  passport without active platforms and points, created one second after the time the
  client's clock reads, the age is \<open>-1\<close> day, the age bonus \<open>-1\<close> and the score
  \<open>-1\<close>.
\<close>

theorem C6_negative_score:
  "getVerificationStrength (sdkOf registryFresh None) (Str ''0xF00'') nowFresh =
     ([GetPassportByAddress (Str ''0xF00''), GetPassportData 3, GetVerifiedPlatforms 3],
      Inr (Some \<lparr>score = - 1, grade = ''F'',
                 breakdown = \<lparr>platformCount = 0, ageBonus = - 1, diversityBonus = 0,
                               totalScore = - 1, pointsBonus = 0\<rparr>,
                 activePlatforms = 0, accountAge = - 1\<rparr>))"
proof -
  let ?p = "\<lparr>passport_id = 3, owner = ''0xF00'', createdAt = 1700000000000,
             verificationCount = 0, category = ''human'', platforms = [],
             verifications = [], totalPoints = 0, referralCode = ''FOO'',
             totalReferrals = 0\<rparr>"
  have gp: "getPassport (sdkOf registryFresh None) (Str ''0xF00'') =
     ([GetPassportByAddress (Str ''0xF00''), GetPassportData 3, GetVerifiedPlatforms 3],
      Inr (Some ?p))"
    by (simp del: bnd_Inr bnd_Inl try_catch_Inl try_catch_Inr bnd_ret bnd_throw try_catch_ret
          try_catch_throw
        add: bnd_def try_catch_def throw_def getPassport_def getPassportId_def sdkOf_def
          registryFresh_def ensureConnected_def passlyContract_def await_def toNumber_def
          falsyId_def ret_def)
  have fa: "filterActive (verifications ?p) (platforms ?p) = ret []"
    by simp
  show ?thesis
    unfolding strength_of_passport[OF gp fa]
    by (simp add: Let_def nowFresh_def gradeOf_def)
qed

section \<open>The category scan\<close>

lemma probedIds_append: "probedIds (xs @ ys) = probedIds xs @ probedIds ys"
  by (simp add: probedIds_def map_filter_def)

text \<open>
  One iteration: it always ends normally, fetches the base record of the current
  identifier once, and either leaves the results as they were or appends one entry for
  that identifier, whose category matches and whose base record loaded.
\<close>

lemma probe_step:
  assumes c: "contract_single this = Some reg"
  shows "\<exists>l res' found'.
           try_catch (probe this nc cur found results) (\<lambda>error. ret (results, found))
             = (l, Inr (res', found')) \<and>
           probedIds l = [cur] \<and>
           ((res' = results \<and> found' = found) \<or>
            (\<exists>e d. res' = results @ [e] \<and> found' = found + 1 \<and> passport_id e = cur \<and>
                   toLowerCase (category e) = nc \<and> getPassportData reg cur = Inr d))"
proof (cases "getPassportData reg cur")
  case (Inl e)
  then show ?thesis
    using c by (simp add: probe_def contractOf_def await_def ret_def probedIds_def map_filter_def)
next
  case (Inr d)
  obtain ow cr vc pc where d: "d = (ow, cr, vc, pc)" by (cases d)
  show ?thesis
  proof (cases "toLowerCase pc = nc")
    case False
    then show ?thesis
      using c Inr d
      by (simp add: probe_def contractOf_def await_def ret_def probedIds_def map_filter_def)
  next
    case True
    show ?thesis
    proof (cases "getVerifiedPlatforms reg cur")
      case (Inl e)
      then show ?thesis
        using c Inr d True
        by (simp add: probe_def contractOf_def await_def ret_def probedIds_def map_filter_def)
    next
      case ps: (Inr ps)
      show ?thesis
        using c Inr d True ps
        by (simp add: probe_def contractOf_def await_def ret_def throw_def toNumber_def
              probedIds_def map_filter_def)
    qed
  qed
qed

text \<open>The loop, from any state: by induction along its own recursion.\<close>

lemma usersLoop_spec:
  assumes "contract_single this = Some reg"
  shows "\<exists>l res k new.
           usersLoop this nc limit maxA cur found attempts results = (l, Inr res) \<and>
           int k \<le> max 0 (maxA - attempts) \<and>
           probedIds l = map (\<lambda>j. cur + int j) [0..<k] \<and>
           res = results @ new \<and>
           int (length new) \<le> max 0 (limit - found) \<and>
           (\<forall>e \<in> set new. toLowerCase (category e) = nc \<and>
                            (\<exists>d. getPassportData reg (passport_id e) = Inr d))"
  using assms
proof (induction this nc limit maxA cur found attempts results rule: usersLoop.induct)
  case (1 this nc limit maxA cur found attempts results)
  note c = "1.prems"
  show ?case
  proof (cases "found < limit \<and> attempts < maxA")
    case False
    have "usersLoop this nc limit maxA cur found attempts results = ret results"
      by (subst usersLoop.simps) (rule if_not_P[OF False])
    then have e0: "usersLoop this nc limit maxA cur found attempts results = ([], Inr results)"
      by (simp add: ret_def)
    show ?thesis
      apply (rule exI[of _ "[]"], rule exI[of _ results], rule exI[of _ 0], rule exI[of _ "[]"])
      using e0 by (simp add: probedIds_def)
  next
    case True
    from probe_step[OF c, of nc cur found results] obtain l1 res1 found1 where
      st: "try_catch (probe this nc cur found results) (\<lambda>error. ret (results, found))
             = (l1, Inr (res1, found1))"
      and p1: "probedIds l1 = [cur]"
      and alt: "(res1 = results \<and> found1 = found) \<or>
            (\<exists>e d. res1 = results @ [e] \<and> found1 = found + 1 \<and> passport_id e = cur \<and>
                   toLowerCase (category e) = nc \<and> getPassportData reg cur = Inr d)"
      by blast
    from "1.IH"[OF True c, of found1 res1] obtain l2 res k2 new2 where
      ih: "usersLoop this nc limit maxA (cur + 1) found1 (attempts + 1) res1 = (l2, Inr res)"
      and k2: "int k2 \<le> max 0 (maxA - (attempts + 1))"
      and p2: "probedIds l2 = map (\<lambda>j. cur + 1 + int j) [0..<k2]"
      and r2: "res = res1 @ new2"
      and n2: "int (length new2) \<le> max 0 (limit - found1)"
      and m2: "\<forall>e \<in> set new2. toLowerCase (category e) = nc \<and>
                            (\<exists>d. getPassportData reg (passport_id e) = Inr d)"
      by blast
    have eq: "usersLoop this nc limit maxA cur found attempts results = (l1 @ l2, Inr res)"
      by (subst usersLoop.simps, subst if_P[OF True]) (simp add: st ih)
    have kk: "int (Suc k2) \<le> max 0 (maxA - attempts)"
      using k2 True by simp
    have "map (\<lambda>j. cur + int j) [0..<Suc k2] = cur # map (\<lambda>j. cur + 1 + int j) [0..<k2]"
      by (simp add: upt_conv_Cons map_Suc_upt[symmetric] del: upt_Suc)
    then have pp: "probedIds (l1 @ l2) = map (\<lambda>j. cur + int j) [0..<Suc k2]"
      by (simp add: probedIds_append p1 p2)
    from alt show ?thesis
    proof
      assume a: "res1 = results \<and> found1 = found"
      show ?thesis
        apply (rule exI[of _ "l1 @ l2"], rule exI[of _ res], rule exI[of _ "Suc k2"],
            rule exI[of _ new2])
        using eq kk pp r2 n2 m2 a by auto
    next
      assume "\<exists>e d. res1 = results @ [e] \<and> found1 = found + 1 \<and> passport_id e = cur \<and>
                   toLowerCase (category e) = nc \<and> getPassportData reg cur = Inr d"
      then obtain e d where a: "res1 = results @ [e]" "found1 = found + 1"
        "passport_id e = cur" "toLowerCase (category e) = nc" "getPassportData reg cur = Inr d"
        by blast
      have len: "int (length (e # new2)) \<le> max 0 (limit - found)"
        using n2 a(2) True by simp
      show ?thesis
        apply (rule exI[of _ "l1 @ l2"], rule exI[of _ res], rule exI[of _ "Suc k2"],
            rule exI[of _ "e # new2"])
        using eq kk pp r2 len m2 a by (cases d) auto
    qed
  qed
qed

text \<open>
  Claim C2. In a connected session, for every category, every limit of at least 1 and
  every start identifier, \<open>getUsersByCategory\<close> returns normally. It fetches the base
  records of \<open>k\<close> consecutive identifiers from \<open>startId\<close> on, each once, with
  \<open>k\<close> at most \<open>limit * 10\<close>; it returns at most \<open>limit\<close> entries; the
  category of every entry equals the requested one after lower-casing both; and no
  entry belongs to an identifier whose base-record fetch fails. For \<open>limit = 5\<close> and
  \<open>startId = 1\<close> that is at most 50 probes and at most 5 entries.
\<close>

theorem C2_scan_bounded:
  assumes "isConnected_single this" and "contract_single this = Some reg" and "1 \<le> limit"
  shows "\<exists>l res k.
           getUsersByCategory this cat limit startId = (l, Inr res) \<and>
           k \<le> nat (limit * 10) \<and>
           probedIds l = map (\<lambda>j. startId + int j) [0..<k] \<and>
           length res \<le> nat limit \<and>
           (\<forall>e \<in> set res. toLowerCase (category e) = toLowerCase cat) \<and>
           (\<forall>i err. getPassportData reg i = Inl err \<longrightarrow> i \<notin> passport_id ` set res) \<and>
           (limit = 5 \<and> startId = 1 \<longrightarrow> length (probedIds l) \<le> 50 \<and> length res \<le> 5)"
proof -
  from usersLoop_spec[OF assms(2), of "toLowerCase cat" limit "limit * 10" startId 0 0 "[]"]
  obtain l res k new where
    eq: "usersLoop this (toLowerCase cat) limit (limit * 10) startId 0 0 [] = (l, Inr res)"
    and k: "int k \<le> max 0 (limit * 10 - 0)"
    and p: "probedIds l = map (\<lambda>j. startId + int j) [0..<k]"
    and r: "res = [] @ new"
    and n: "int (length new) \<le> max 0 (limit - 0)"
    and m: "\<forall>e \<in> set new. toLowerCase (category e) = toLowerCase cat \<and>
                            (\<exists>d. getPassportData reg (passport_id e) = Inr d)"
    by blast
  have g: "getUsersByCategory this cat limit startId = (l, Inr res)"
    using assms(1) eq by (simp add: getUsersByCategory_def ensureConnected_single_def Let_def)
  have k': "k \<le> nat (limit * 10)" using k assms(3) by simp
  have n': "length res \<le> nat limit" using n r assms(3) by simp
  have c: "\<forall>e \<in> set res. toLowerCase (category e) = toLowerCase cat"
    using m r by simp
  have s: "\<forall>i err. getPassportData reg i = Inl err \<longrightarrow> i \<notin> passport_id ` set res"
    using m r by auto
  have lp: "length (probedIds l) = k" by (simp add: p)
  have five: "limit = 5 \<and> startId = 1 \<longrightarrow> length (probedIds l) \<le> 50 \<and> length res \<le> 5"
    using k' n' lp by auto
  from g k' p n' c s five show ?thesis by blast
qed

text \<open>A scan for developers over the example registry, with limit 2 and with limit 5.\<close>

lemma toLowerCase_examples:
  "toLowerCase ''Developer'' = ''developer''" "toLowerCase ''developer'' = ''developer''"
  "toLowerCase ''creator'' = ''creator''"
  by code_simp+

lemma scan_two:
  "getUsersByCategory (sdkSingleOf registryScan) ''developer'' 2 1 =
     ([GetPassportData 1, GetVerifiedPlatforms 1, GetPassportData 2, GetPassportData 3,
       GetPassportData 4, GetVerifiedPlatforms 4],
      Inr [\<lparr>passport_id = 1, owner = ''0xA1'', createdAt = 1700000000000,
             verificationCount = 2, category = ''Developer'',
             platforms = [''github'', ''twitter'']\<rparr>,
           \<lparr>passport_id = 4, owner = ''0xA4'', createdAt = 1700000400000,
             verificationCount = 0, category = ''developer'', platforms = []\<rparr>])"
  by (simp del: bnd_Inr bnd_Inl try_catch_Inl try_catch_Inr bnd_ret bnd_throw try_catch_ret
          try_catch_throw
        add: bnd_def try_catch_def throw_def ret_def await_def toNumber_def
          getUsersByCategory_def ensureConnected_single_def sdkSingleOf_def registryScan_def
          usersLoop.simps probe_def contractOf_def toLowerCase_examples Let_def
          noSuchPassport_def)


theorem C2_scan_bounded_witness:
  "isConnected_single (sdkSingleOf registryScan) \<and>
   contract_single (sdkSingleOf registryScan) = Some registryScan \<and> (1::int) \<le> 5 \<and>
   (\<exists>l res. getUsersByCategory (sdkSingleOf registryScan) ''developer'' 5 1 = (l, Inr res) \<and>
            length (probedIds l) \<le> 50 \<and> length res \<le> 5) \<and>
   (1::int) \<le> 2 \<and>
   getUsersByCategory (sdkSingleOf registryScan) ''developer'' 2 1 =
     ([GetPassportData 1, GetVerifiedPlatforms 1, GetPassportData 2, GetPassportData 3,
       GetPassportData 4, GetVerifiedPlatforms 4],
      Inr [\<lparr>passport_id = 1, owner = ''0xA1'', createdAt = 1700000000000,
             verificationCount = 2, category = ''Developer'',
             platforms = [''github'', ''twitter'']\<rparr>,
           \<lparr>passport_id = 4, owner = ''0xA4'', createdAt = 1700000400000,
             verificationCount = 0, category = ''developer'', platforms = []\<rparr>]) \<and>
   probedIds [GetPassportData 1, GetVerifiedPlatforms 1, GetPassportData 2, GetPassportData 3,
       GetPassportData 4, GetVerifiedPlatforms 4] = [1, 2, 3, 4]"
proof -
  have h: "isConnected_single (sdkSingleOf registryScan)"
    "contract_single (sdkSingleOf registryScan) = Some registryScan"
    by (simp_all add: sdkSingleOf_def)
  have five: "(1::int) \<le> 5" and two: "(1::int) \<le> 2" by simp_all
  from C2_scan_bounded[OF h five, of "''developer''" 1]
  have a: "\<exists>l res. getUsersByCategory (sdkSingleOf registryScan) ''developer'' 5 1 = (l, Inr res) \<and>
            length (probedIds l) \<le> 50 \<and> length res \<le> 5"
    by auto
  from C2_scan_bounded[OF h two, of "''developer''" 1] scan_two
  have b: "probedIds [GetPassportData 1, GetVerifiedPlatforms 1, GetPassportData 2,
       GetPassportData 3, GetPassportData 4, GetVerifiedPlatforms 4] = [1, 2, 3, 4]"
    by (simp add: probedIds_def map_filter_def)
  from h a b scan_two show ?thesis by simp
qed

end
